theory Spec2Isabelle
  imports Complex_Main "HOL-Library.Word"
begin

unbundle bit_operations_syntax

section \<open>Byte strings and the hex codec of the Go standard library\<close>

text \<open>
  A Go \<open>string\<close> and a Go \<open>[]byte\<close> are both sequences of 8-bit bytes, and the
  conversions \<open>[]byte(s)\<close> and \<open>string(b)\<close> keep the bytes as they are. Both are
  modelled as lists of \<open>char\<close> (an 8-bit value in HOL); \<open>len\<close> is \<open>length\<close>.
\<close>

type_synonym bytes = "char list"

definition hextable :: string where
  "hextable = ''0123456789abcdef''"

definition hex_EncodedLen :: "nat \<Rightarrow> nat" where
  "hex_EncodedLen n = n * 2"

definition hex_DecodedLen :: "nat \<Rightarrow> nat" where
  "hex_DecodedLen x = x div 2"

text \<open>\<open>hex.Encode\<close> writes two lower-case digits for every source byte.\<close>

fun hex_digits :: "bytes \<Rightarrow> bytes" where
  "hex_digits [] = []"
| "hex_digits (v # src) =
     hextable ! (of_char v div 16) # hextable ! (of_char v mod 16) # hex_digits src"

text \<open>
  \<open>hex.Encode(dst, src)\<close> overwrites the first \<open>2 * len(src)\<close> bytes of \<open>dst\<close> and
  leaves the rest of \<open>dst\<close> as it was. Every call in the repository passes a
  destination that is long enough.
\<close>

definition hex_Encode :: "bytes \<Rightarrow> bytes \<Rightarrow> bytes" where
  "hex_Encode dst src = hex_digits src @ drop (hex_EncodedLen (length src)) dst"

definition hex_EncodeToString :: "bytes \<Rightarrow> string" where
  "hex_EncodeToString src = hex_digits src"

datatype hex_error = InvalidByteError char | ErrLength

definition fromHexChar :: "char \<Rightarrow> nat option" where
  "fromHexChar c =
     (let n = (of_char c :: nat) in
      if 48 \<le> n \<and> n \<le> 57 then Some (n - 48)
      else if 97 \<le> n \<and> n \<le> 102 then Some (n - 97 + 10)
      else if 65 \<le> n \<and> n \<le> 70 then Some (n - 65 + 10)
      else None)"

text \<open>
  \<open>hex.Decode\<close> returns the number of bytes it wrote and an error; the model
  returns the written bytes \<open>dst[:n]\<close> and the error. A pair with a character
  that is no hex digit stops the decoding; an odd length is reported at the end.
\<close>

fun hex_Decode :: "bytes \<Rightarrow> bytes \<times> hex_error option" where
  "hex_Decode [] = ([], None)"
| "hex_Decode [p] =
     (case fromHexChar p of
        None \<Rightarrow> ([], Some (InvalidByteError p))
      | Some a \<Rightarrow> ([], Some ErrLength))"
| "hex_Decode (p # q # src) =
     (case fromHexChar p of
        None \<Rightarrow> ([], Some (InvalidByteError p))
      | Some a \<Rightarrow>
         (case fromHexChar q of
            None \<Rightarrow> ([], Some (InvalidByteError q))
          | Some b \<Rightarrow>
             (case hex_Decode src of
                (out, err) \<Rightarrow> (char_of (a * 16 + b) # out, err))))"

definition hex_DecodeString :: "string \<Rightarrow> bytes \<times> hex_error option" where
  "hex_DecodeString s = hex_Decode s"

section \<open>Decimal text of an integer\<close>

text \<open>\<open>strconv.Itoa\<close>: the decimal digits, with a minus sign for a negative number.\<close>

fun decimal_digits :: "nat \<Rightarrow> string" where
  "decimal_digits n =
     (if n < 10 then [''0123456789'' ! n]
      else decimal_digits (n div 10) @ [''0123456789'' ! (n mod 10)])"

definition strconv_Itoa :: "int \<Rightarrow> string" where
  "strconv_Itoa i =
     (if i < 0 then CHR ''-'' # decimal_digits (nat (- i)) else decimal_digits (nat i))"

text \<open>The number that a text of decimal digits denotes.\<close>

definition decimalValue :: "string \<Rightarrow> nat" where
  "decimalValue s = foldl (\<lambda>a c. 10 * a + (of_char c - 48)) 0 s"

section \<open>Errors\<close>

text \<open>
  \<open>ibmmq.MQReturn\<close> carries the reason code of a failed call as an \<open>int32\<close>. The
  Go \<open>error\<close> values of the repository are such a return or a text made by
  \<open>errors.New\<close>. A \<open>JMSException\<close> holds a reason, an error code and the error
  it was made from.
\<close>

record MQReturn =
  MQRC :: "32 word"

datatype go_error = MQError MQReturn | ErrorsNew string

record JMSException =
  reason :: string
  errorCode :: string
  linkedError :: "go_error option"

definition CreateJMSException :: "string \<Rightarrow> string \<Rightarrow> go_error option \<Rightarrow> JMSException" where
  "CreateJMSException r c l = \<lparr> reason = r, errorCode = c, linkedError = l \<rparr>"

text \<open>
  Constants of the IBM MQ interface (the header \<open>cmqc.h\<close>, through the package
  \<open>ibmmq\<close>; neither is part of the repository).
\<close>

definition MQRC_NO_MSG_AVAILABLE :: "32 word" where "MQRC_NO_MSG_AVAILABLE = 2033"
definition MQRC_Q_FULL :: "32 word" where "MQRC_Q_FULL = 2053"
definition MQRC_HMSG_ERROR :: "32 word" where "MQRC_HMSG_ERROR = 2460"
definition MQRC_PROPERTY_NOT_AVAILABLE :: "32 word" where "MQRC_PROPERTY_NOT_AVAILABLE = 2471"
definition MQRC_PROPERTY_NAME_LENGTH_ERR :: "32 word" where "MQRC_PROPERTY_NAME_LENGTH_ERR = 2513"

definition MQIMPO_INQ_FIRST :: "32 word" where "MQIMPO_INQ_FIRST = 0"
definition MQIMPO_CONVERT_VALUE :: "32 word" where "MQIMPO_CONVERT_VALUE = 32"
definition MQIMPO_INQ_NEXT :: "32 word" where "MQIMPO_INQ_NEXT = 8"

definition MQGMO_WAIT :: "32 word" where "MQGMO_WAIT = 1"
definition MQGMO_SYNCPOINT :: "32 word" where "MQGMO_SYNCPOINT = 2"
definition MQGMO_NO_SYNCPOINT :: "32 word" where "MQGMO_NO_SYNCPOINT = 4"
definition MQGMO_FAIL_IF_QUIESCING :: "32 word" where "MQGMO_FAIL_IF_QUIESCING = 8192"
definition MQGMO_PROPERTIES_IN_HANDLE :: "32 word" where "MQGMO_PROPERTIES_IN_HANDLE = 134217728"
definition MQWI_UNLIMITED :: "32 word" where "MQWI_UNLIMITED = - 1"

definition MQFMT_NONE :: string where
  "MQFMT_NONE = ''        ''"

definition MQFMT_STRING :: string where
  "MQFMT_STRING = ''MQSTR''"

section \<open>The message handle of the queue manager\<close>

text \<open>
  The properties of a message live in a message handle of the IBM MQ client
  library, which is not part of the repository. The model keeps what the
  repository can observe of it: the ordered entries (name and typed value), the
  position of the inquiry cursor, and, for each call, the reason code with
  which the queue manager refuses it, if it does. \<open>InqMP\<close> hands an integer
  back as \<open>int64\<close> and a double as \<open>float64\<close>; the double is modelled by the
  real number it denotes.
\<close>

datatype prop_value = PString string | PInt int | PDouble real | PBool bool

datatype mq_verb = MQSETMP | MQDLTMP | MQINQMP

record MQMessageHandle =
  hMsg :: int
  entries :: "(string \<times> prop_value) list"
  cursor :: nat
  failing :: "mq_verb \<Rightarrow> string \<Rightarrow> 32 word option"

definition propertyNames :: "MQMessageHandle \<Rightarrow> string list" where
  "propertyNames h = map fst (entries h)"

fun upsert :: "string \<Rightarrow> prop_value \<Rightarrow> (string \<times> prop_value) list \<Rightarrow> (string \<times> prop_value) list" where
  "upsert name v [] = [(name, v)]"
| "upsert name v ((k, w) # es) =
     (if k = name then (k, v) # es else (k, w) # upsert name v es)"

text \<open>
  \<open>MQSETMP\<close> sets or replaces a property, \<open>MQDLTMP\<close> deletes one and \<open>MQINQMP\<close>
  reads one. An empty name is refused with \<open>MQRC_PROPERTY_NAME_LENGTH_ERR\<close>; a
  name that is not set answers \<open>MQRC_PROPERTY_NOT_AVAILABLE\<close>. The name \<open>%\<close> is
  the wildcard of an inquiry: with \<open>MQIMPO_INQ_NEXT\<close> it answers the entry at the
  cursor, without it the first entry, and it moves the cursor past the entry
  answered.
\<close>

definition SetMP :: "MQMessageHandle \<Rightarrow> string \<Rightarrow> prop_value \<Rightarrow> MQReturn option \<times> MQMessageHandle" where
  "SetMP h name v =
     (case failing h MQSETMP name of
        Some rc \<Rightarrow> (Some \<lparr> MQRC = rc \<rparr>, h)
      | None \<Rightarrow>
         if name = '''' then (Some \<lparr> MQRC = MQRC_PROPERTY_NAME_LENGTH_ERR \<rparr>, h)
         else (None, h\<lparr> entries := upsert name v (entries h) \<rparr>))"

definition DltMP :: "MQMessageHandle \<Rightarrow> string \<Rightarrow> MQReturn option \<times> MQMessageHandle" where
  "DltMP h name =
     (case failing h MQDLTMP name of
        Some rc \<Rightarrow> (Some \<lparr> MQRC = rc \<rparr>, h)
      | None \<Rightarrow>
         if name = '''' then (Some \<lparr> MQRC = MQRC_PROPERTY_NAME_LENGTH_ERR \<rparr>, h)
         else if name \<in> set (propertyNames h)
           then (None, h\<lparr> entries := filter (\<lambda>e. fst e \<noteq> name) (entries h) \<rparr>)
         else (Some \<lparr> MQRC = MQRC_PROPERTY_NOT_AVAILABLE \<rparr>, h))"

definition InqMP :: "MQMessageHandle \<Rightarrow> 32 word \<Rightarrow> string \<Rightarrow> (MQReturn + string \<times> prop_value) \<times> MQMessageHandle" where
  "InqMP h options name =
     (case failing h MQINQMP name of
        Some rc \<Rightarrow> (Inl \<lparr> MQRC = rc \<rparr>, h)
      | None \<Rightarrow>
         if name = '''' then (Inl \<lparr> MQRC = MQRC_PROPERTY_NAME_LENGTH_ERR \<rparr>, h)
         else if name = ''%'' then
           (let i = (if options AND MQIMPO_INQ_NEXT = 0 then 0 else cursor h) in
            if i < length (entries h)
              then (Inr (entries h ! i), h\<lparr> cursor := Suc i \<rparr>)
              else (Inl \<lparr> MQRC = MQRC_PROPERTY_NOT_AVAILABLE \<rparr>, h))
         else
           (case map_of (entries h) name of
              Some v \<Rightarrow> (Inr (name, v), h)
            | None \<Rightarrow> (Inl \<lparr> MQRC = MQRC_PROPERTY_NOT_AVAILABLE \<rparr>, h)))"

section \<open>The message descriptor and the message\<close>

text \<open>
  The fields of \<open>ibmmq.MQMD\<close> that the functions below read or write. The two
  identifiers are Go slices, which may be \<open>nil\<close>. \<open>ibmmq.NewMQMD()\<close> gives a
  blank format and two identifiers of 24 zero bytes.
\<close>

record MQMD =
  Format :: string
  MsgId :: "bytes option"
  CorrelId :: "bytes option"

definition NewMQMD :: MQMD where
  "NewMQMD = \<lparr> Format = MQFMT_NONE,
               MsgId = Some (replicate 24 (CHR 0x00)),
               CorrelId = Some (replicate 24 (CHR 0x00)) \<rparr>"

text \<open>
  \<open>MessageImpl\<close>: the descriptor pointer may be \<open>nil\<close>; the handle pointer is set
  by whoever makes the message. The lock of the context is not modelled: every
  function below runs alone.
\<close>

record MessageImpl =
  mqmd :: "MQMD option"
  msgHandle :: MQMessageHandle

subsection \<open>Correlation identifier\<close>

definition convertStringToMQBytes :: "string \<Rightarrow> bytes" where
  "convertStringToMQBytes strText =
     (let correlHexBytes =
        (case hex_DecodeString strText of
           (decoded, None) \<Rightarrow> decoded
         | (_, Some err) \<Rightarrow>
            (let correlBytes = strText;
                 encodedLen = hex_EncodedLen (length correlBytes);
                 encodedLen = (if encodedLen < 24 then 24 else encodedLen)
             in hex_Encode (replicate encodedLen (CHR 0x00)) correlBytes))
      in if length correlHexBytes > 48 then take 48 correlHexBytes else correlHexBytes)"

definition SetJMSCorrelationID :: "string \<Rightarrow> MessageImpl \<Rightarrow> MessageImpl" where
  "SetJMSCorrelationID correlID msg =
     (let correlHexBytes = convertStringToMQBytes correlID;
          md = (case mqmd msg of None \<Rightarrow> NewMQMD | Some md \<Rightarrow> md)
      in msg\<lparr> mqmd := Some (md\<lparr> CorrelId := Some correlHexBytes \<rparr>) \<rparr>)"

text \<open>The loop that finds the padding: it steps back over trailing zero bytes.\<close>

fun realLength :: "bytes \<Rightarrow> nat \<Rightarrow> nat" where
  "realLength correlIDBytes 0 = 0"
| "realLength correlIDBytes (Suc n) =
     (if correlIDBytes ! n = CHR 0x00 then realLength correlIDBytes n else Suc n)"

definition GetJMSCorrelationID :: "MessageImpl \<Rightarrow> string" where
  "GetJMSCorrelationID msg =
     (case mqmd msg of
        None \<Rightarrow> ''''
      | Some md \<Rightarrow>
         (case CorrelId md of
            None \<Rightarrow> ''''
          | Some correlIDBytes \<Rightarrow>
             (let n = realLength correlIDBytes (length correlIDBytes) in
              case hex_Decode (take n correlIDBytes) of
                (dst, None) \<Rightarrow> dst
              | (_, Some err) \<Rightarrow> hex_EncodeToString correlIDBytes)))"

subsection \<open>Message properties\<close>

text \<open>
  \<open>ibmmq.MQItoString\<close>, the library's table from a reason code to its name, is
  a parameter of the functions that call it.
\<close>

definition exceptionOfReturn :: "(string \<Rightarrow> int \<Rightarrow> string) \<Rightarrow> MQReturn \<Rightarrow> JMSException" where
  "exceptionOfReturn MQItoString mqret =
     (let rcInt = sint (MQRC mqret);
          errCode = strconv_Itoa rcInt;
          reason = MQItoString ''RC'' rcInt
      in CreateJMSException reason errCode (Some (MQError mqret)))"

definition SetStringProperty :: "(string \<Rightarrow> int \<Rightarrow> string) \<Rightarrow> string \<Rightarrow> string option \<Rightarrow> MessageImpl \<Rightarrow> JMSException option \<times> MessageImpl" where
  "SetStringProperty MQItoString name val msg =
     (case (case val of
              Some valueStr \<Rightarrow> SetMP (msgHandle msg) name (PString valueStr)
            | None \<Rightarrow> DltMP (msgHandle msg) name) of
        (linkedErr, h) \<Rightarrow>
          (map_option (exceptionOfReturn MQItoString) linkedErr, msg\<lparr> msgHandle := h \<rparr>))"

text \<open>
  \<open>GetStringProperty\<close> gives \<open>nil\<close> for a name that is not set, the text of a
  text property, and a pointer to the empty text in every other case (another
  type of value, or another failure of the inquiry, which it only prints).
\<close>

definition GetStringProperty :: "string \<Rightarrow> MessageImpl \<Rightarrow> string option" where
  "GetStringProperty name msg =
     (case fst (InqMP (msgHandle msg) 0 name) of
        Inr (gotName, v) \<Rightarrow>
          (case v of PString valueTyped \<Rightarrow> Some valueTyped | _ \<Rightarrow> Some '''')
      | Inl mqret \<Rightarrow>
          if MQRC mqret = MQRC_PROPERTY_NOT_AVAILABLE then None else Some '''')"

text \<open>
  The loop of \<open>getPropertiesInternal\<close>: one wildcard inquiry per round, the
  first with \<open>MQIMPO_INQ_FIRST\<close>, the others with \<open>MQIMPO_INQ_NEXT\<close>. A \<open>nil\<close>
  slice of names is the empty list.
\<close>

function getPropertiesLoop :: "(string \<Rightarrow> int \<Rightarrow> string) \<Rightarrow> string \<Rightarrow> 32 word \<Rightarrow> MQMessageHandle \<Rightarrow> string list \<Rightarrow> (bool \<times> string list \<times> JMSException option) \<times> MQMessageHandle" where
  "getPropertiesLoop MQItoString name options h propNames =
     (case InqMP h options ''%'' of
        (Inl mqret, h') \<Rightarrow>
          if MQRC mqret \<noteq> MQRC_PROPERTY_NOT_AVAILABLE
            then ((False, [], Some (exceptionOfReturn MQItoString mqret)), h')
            else ((False, propNames, None), h')
      | (Inr (gotName, v), h') \<Rightarrow>
          if name = '''' then
            getPropertiesLoop MQItoString name (MQIMPO_CONVERT_VALUE OR MQIMPO_INQ_NEXT) h'
              (propNames @ [gotName])
          else if gotName = name then ((True, [], None), h')
          else
            getPropertiesLoop MQItoString name (MQIMPO_CONVERT_VALUE OR MQIMPO_INQ_NEXT) h'
              propNames)"
  by pat_completeness auto
termination
proof (relation "measure (\<lambda>(I, name, options, h, propNames).
    length (entries h) - (if options AND MQIMPO_INQ_NEXT = 0 then 0 else cursor h))")
  show "wf (measure (\<lambda>(I, name, options, h, propNames).
    length (entries h) - (if options AND MQIMPO_INQ_NEXT = 0 then 0 else cursor h)))"
    by simp
next
  fix MQItoString :: "string \<Rightarrow> int \<Rightarrow> string" and name :: string and options :: "32 word"
    and h :: MQMessageHandle and propNames :: "string list" and x h' y gotName v
  assume "(x, h') = InqMP h options ''%''" "x = Inr y" "(gotName, v) = y" "name = ''''"
  then show "((MQItoString, name, MQIMPO_CONVERT_VALUE OR MQIMPO_INQ_NEXT, h', propNames @ [gotName]),
      (MQItoString, name, options, h, propNames))
    \<in> measure (\<lambda>(I, name, options, h, propNames).
        length (entries h) - (if options AND MQIMPO_INQ_NEXT = 0 then 0 else cursor h))"
    by (auto simp add: InqMP_def Let_def MQIMPO_CONVERT_VALUE_def MQIMPO_INQ_NEXT_def
        split: option.splits if_splits)
next
  fix MQItoString :: "string \<Rightarrow> int \<Rightarrow> string" and name :: string and options :: "32 word"
    and h :: MQMessageHandle and propNames :: "string list" and x h' y gotName v
  assume "(x, h') = InqMP h options ''%''" "x = Inr y" "(gotName, v) = y"
  then show "((MQItoString, name, MQIMPO_CONVERT_VALUE OR MQIMPO_INQ_NEXT, h', propNames),
      (MQItoString, name, options, h, propNames))
    \<in> measure (\<lambda>(I, name, options, h, propNames).
        length (entries h) - (if options AND MQIMPO_INQ_NEXT = 0 then 0 else cursor h))"
    by (auto simp add: InqMP_def Let_def MQIMPO_CONVERT_VALUE_def MQIMPO_INQ_NEXT_def
        split: option.splits if_splits)
qed

definition getPropertiesInternal :: "(string \<Rightarrow> int \<Rightarrow> string) \<Rightarrow> string \<Rightarrow> MessageImpl \<Rightarrow> (bool \<times> string list \<times> JMSException option) \<times> MessageImpl" where
  "getPropertiesInternal MQItoString name msg =
     (case getPropertiesLoop MQItoString name (MQIMPO_CONVERT_VALUE OR MQIMPO_INQ_FIRST)
             (msgHandle msg) [] of
        (r, h) \<Rightarrow> (r, msg\<lparr> msgHandle := h \<rparr>))"

definition PropertyExists :: "(string \<Rightarrow> int \<Rightarrow> string) \<Rightarrow> string \<Rightarrow> MessageImpl \<Rightarrow> (bool \<times> JMSException option) \<times> MessageImpl" where
  "PropertyExists MQItoString name msg =
     (case getPropertiesInternal MQItoString name msg of
        ((found, _, retErr), msg') \<Rightarrow> ((found, retErr), msg'))"

definition GetPropertyNames :: "(string \<Rightarrow> int \<Rightarrow> string) \<Rightarrow> MessageImpl \<Rightarrow> (string list \<times> JMSException option) \<times> MessageImpl" where
  "GetPropertyNames MQItoString msg =
     (case getPropertiesInternal MQItoString '''' msg of
        ((_, propNames, retErr), msg') \<Rightarrow> ((propNames, retErr), msg'))"

text \<open>The loop of \<open>ClearProperties\<close> over the names: it breaks at the first failure.\<close>

fun deleteEach :: "(string \<Rightarrow> int \<Rightarrow> string) \<Rightarrow> string list \<Rightarrow> MQMessageHandle \<Rightarrow> JMSException option \<times> MQMessageHandle" where
  "deleteEach MQItoString [] h = (None, h)"
| "deleteEach MQItoString (propName # rest) h =
     (case DltMP h propName of
        (Some err, h') \<Rightarrow> (Some (exceptionOfReturn MQItoString err), h')
      | (None, h') \<Rightarrow> deleteEach MQItoString rest h')"

definition ClearProperties :: "(string \<Rightarrow> int \<Rightarrow> string) \<Rightarrow> MessageImpl \<Rightarrow> JMSException option \<times> MessageImpl" where
  "ClearProperties MQItoString msg =
     (case GetPropertyNames MQItoString msg of
        ((allPropNames, Some jmsErr), msg') \<Rightarrow> (Some jmsErr, msg')
      | ((allPropNames, None), msg') \<Rightarrow>
          (case deleteEach MQItoString allPropNames (msgHandle msg') of
             (jmsErr, h) \<Rightarrow> (jmsErr, msg'\<lparr> msgHandle := h \<rparr>)))"

section \<open>The selector of a consumer\<close>

text \<open>
  \<open>strings.Split\<close> with a separator of one character (the repository splits
  at \<open>=\<close> and at the single quote): the pieces between the separators, one more
  than there are separators.
\<close>

fun splitFrom :: "string \<Rightarrow> char \<Rightarrow> string \<Rightarrow> string list" where
  "splitFrom piece sep [] = [piece]"
| "splitFrom piece sep (c # s) =
     (if c = sep then piece # splitFrom [] sep s else splitFrom (piece @ [c]) sep s)"

definition strings_Split :: "string \<Rightarrow> char \<Rightarrow> string list" where
  "strings_Split s sep = splitFrom [] sep s"

definition strings_HasPrefix :: "string \<Rightarrow> string \<Rightarrow> bool" where
  "strings_HasPrefix s pre = (length s \<ge> length pre \<and> take (length pre) s = pre)"

definition strings_HasSuffix :: "string \<Rightarrow> string \<Rightarrow> bool" where
  "strings_HasSuffix s suf = (length s \<ge> length suf \<and> drop (length s - length suf) s = suf)"

text \<open>
  \<open>strings.TrimSpace\<close> of the Go library cuts the Unicode white space from both
  ends of a text. It is a parameter of \<open>applySelector\<close>; \<open>asciiTrimSpace\<close> is
  what it does on a text of ASCII characters (tab, line feed, vertical tab, form
  feed, carriage return and blank are the white space there).
\<close>

definition asciiSpace :: "char \<Rightarrow> bool" where
  "asciiSpace c = (c \<in> set [CHR 0x09, CHR 0x0A, CHR 0x0B, CHR 0x0C, CHR 0x0D, CHR '' ''])"

definition asciiTrimSpace :: "string \<Rightarrow> string" where
  "asciiTrimSpace s = rev (dropWhile asciiSpace (rev (dropWhile asciiSpace s)))"

text \<open>A Go function returns, or panics when it reads a slice out of range.\<close>

datatype 'a outcome = Return 'a | Panic string

text \<open>
  \<open>applySelector\<close> returns an error or \<open>nil\<close>, and writes the identifier to
  match into the descriptor that it was given. The model returns the error and
  the descriptor. The get-message options are passed to the function, which
  does not touch them.
\<close>

definition applySelector :: "(string \<Rightarrow> string) \<Rightarrow> string \<Rightarrow> MQMD \<Rightarrow> (go_error option \<times> MQMD) outcome" where
  "applySelector TrimSpace selector getmqmd =
     (if selector = '''' then Return (None, getmqmd)
      else
        (let clauseSplits = strings_Split selector (CHR ''='') in
         if length clauseSplits \<noteq> 2
           then Return (Some (ErrorsNew (''Unable to parse selector '' @ selector)), getmqmd)
         else
           (let selectorFieldName = TrimSpace (clauseSplits ! 0) in
            if selectorFieldName \<noteq> ''JMSCorrelationID'' \<and> selectorFieldName \<noteq> ''JMSMessageID''
              then Return (Some (ErrorsNew
                ''Only selectors on JMSCorrelationID and JMSMessageID are currently supported''),
                getmqmd)
            else
              (let val = TrimSpace (clauseSplits ! 1) in
               if strings_HasPrefix val [CHR 0x27] \<and> strings_HasSuffix val [CHR 0x27] then
                 (case strings_Split val (CHR 0x27) of
                    s0 # s1 # rest \<Rightarrow>
                      (let selectorValue =
                         (if strings_HasPrefix s1 ''ID:'' then drop 3 s1 else s1) in
                       if selectorValue \<noteq> '''' then
                         (let selectorValueBytes = convertStringToMQBytes selectorValue in
                          if selectorFieldName = ''JMSCorrelationID''
                            then Return (None, getmqmd\<lparr> CorrelId := Some selectorValueBytes \<rparr>)
                          else if selectorFieldName = ''JMSMessageID''
                            then Return (None, getmqmd\<lparr> MsgId := Some selectorValueBytes \<rparr>)
                          else Return (None, getmqmd))
                       else Return (Some (ErrorsNew ''No value was found for selector string''),
                              getmqmd))
                  | _ \<Rightarrow> Panic ''index out of range [1]'')
               else Return (Some (ErrorsNew (''Unable to parse quoted string from '' @ selector)),
                      getmqmd)))))"

text \<open>
  The source tells the failures of a selector apart by the text of the error.
  The specification names two kinds: \<open>UnsupportedSelectorField\<close> for a field
  that is neither of the two identifiers, \<open>MalformedSelector\<close> for the others.
\<close>

datatype selector_error_kind = UnsupportedSelectorField | MalformedSelector

fun selectorErrorKind :: "go_error \<Rightarrow> selector_error_kind" where
  "selectorErrorKind (ErrorsNew text) =
     (if text = ''Only selectors on JMSCorrelationID and JMSMessageID are currently supported''
      then UnsupportedSelectorField else MalformedSelector)"
| "selectorErrorKind (MQError mqret) = MalformedSelector"

section \<open>Receiving a message\<close>

text \<open>
  The queue manager keeps the message handles that were created and not yet
  deleted. \<open>CrtMH\<close> makes a new, empty handle (the source ignores the error that
  \<open>CrtMH\<close> may return; the model is the call that succeeds). \<open>DltMH\<close> deletes a
  handle, and fails with \<open>MQRC_HMSG_ERROR\<close> on one that is not there.
\<close>

record MQQueueManager =
  liveHandles :: "int list"
  nextHandle :: int

definition CrtMH :: "MQQueueManager \<Rightarrow> MQMessageHandle \<times> MQQueueManager" where
  "CrtMH qMgr =
     (\<lparr> hMsg = nextHandle qMgr, entries = [], cursor = 0, failing = (\<lambda>verb name. None) \<rparr>,
      qMgr\<lparr> liveHandles := nextHandle qMgr # liveHandles qMgr,
            nextHandle := nextHandle qMgr + 1 \<rparr>)"

definition DltMH :: "MQMessageHandle \<Rightarrow> MQQueueManager \<Rightarrow> MQReturn option \<times> MQQueueManager" where
  "DltMH h qMgr =
     (if hMsg h \<in> set (liveHandles qMgr)
        then (None, qMgr\<lparr> liveHandles := removeAll (hMsg h) (liveHandles qMgr) \<rparr>)
        else (Some \<lparr> MQRC = MQRC_HMSG_ERROR \<rparr>, qMgr))"

record MQGMO =
  Options :: "32 word"
  WaitInterval :: "32 word"
  MsgHandle :: MQMessageHandle

definition NewMQGMO :: MQGMO where
  "NewMQGMO = \<lparr> Options = 0, WaitInterval = MQWI_UNLIMITED,
                MsgHandle = \<lparr> hMsg = - 1, entries = [], cursor = 0,
                              failing = (\<lambda>verb name. None) \<rparr> \<rparr>"

text \<open>
  What \<open>MQGET\<close> answers is the queue manager's: either a message (its
  descriptor, its body, which fits the buffer, and its properties, which the
  call puts in the handle of the options), or a failure with its reason. The
  answer is a function of what the call is given: the descriptor, the options
  and the size of the buffer.
\<close>

datatype MQGET_reply =
  GotMessage MQMD bytes "(string \<times> prop_value) list"
| GetFailed MQReturn

record MQObject =
  mqget :: "MQMD \<Rightarrow> MQGMO \<Rightarrow> nat \<Rightarrow> MQGET_reply"

definition JMSContextSESSIONTRANSACTED :: int where
  "JMSContextSESSIONTRANSACTED = 0"

record ContextImpl =
  qMgr :: MQQueueManager
  sessionMode :: int
  receiveBufferSize :: int

record ConsumerImpl =
  ctx :: ContextImpl
  qObject :: MQObject
  selector :: string

datatype Message =
  TextMessageImpl "string option" MessageImpl
| BytesMessageImpl bytes MessageImpl

text \<open>
  \<open>receiveInternal\<close> returns the message and the exception, either of which
  may be \<open>nil\<close>; the model returns the queue manager as well, since the call
  creates and deletes message handles there. The finalizer that the source
  sets on the handle of a received message runs at a garbage collection and is
  not modelled.
\<close>

definition receiveInternal :: "(string \<Rightarrow> int \<Rightarrow> string) \<Rightarrow> (string \<Rightarrow> string) \<Rightarrow> ConsumerImpl \<Rightarrow> MQGMO \<Rightarrow> ((Message option \<times> JMSException option) \<times> MQQueueManager) outcome" where
  "receiveInternal MQItoString TrimSpace consumer gmo0 =
     (let getmqmd = NewMQMD;
          myBufferSize = (if receiveBufferSize (ctx consumer) > 0
                          then receiveBufferSize (ctx consumer) else 32768);
          syncpointSetting = (if sessionMode (ctx consumer) = JMSContextSESSIONTRANSACTED
                              then MQGMO_SYNCPOINT else MQGMO_NO_SYNCPOINT);
          gmo1 = gmo0\<lparr> Options := Options gmo0 OR syncpointSetting \<rparr>;
          gmo2 = gmo1\<lparr> Options := Options gmo1 OR MQGMO_FAIL_IF_QUIESCING \<rparr>;
          gmo3 = gmo2\<lparr> Options := Options gmo2 OR MQGMO_PROPERTIES_IN_HANDLE \<rparr>
      in case CrtMH (qMgr (ctx consumer)) of
        (thisMsgHandle, qm1) \<Rightarrow>
          (let gmo = gmo3\<lparr> MsgHandle := thisMsgHandle \<rparr> in
           case applySelector TrimSpace (selector consumer) getmqmd of
             Panic p \<Rightarrow> Panic p
           | Return (Some err, _) \<Rightarrow>
               Return ((None, Some (CreateJMSException ''ErrorParsingSelector''
                                      ''ErrorParsingSelector'' (Some err))), qm1)
           | Return (None, getmqmd') \<Rightarrow>
               (case mqget (qObject consumer) getmqmd' gmo (nat myBufferSize) of
                  GotMessage md body props \<Rightarrow>
                    (let datalen = length body;
                         filledHandle = thisMsgHandle\<lparr> entries := props \<rparr>;
                         impl = \<lparr> mqmd = Some md, msgHandle = filledHandle \<rparr>
                     in if Format md = MQFMT_STRING
                        then Return ((Some (TextMessageImpl
                                       (if datalen > 0 then Some body else None) impl), None), qm1)
                        else Return ((Some (BytesMessageImpl body impl), None), qm1))
                | GetFailed mqret \<Rightarrow>
                    (case DltMH (MsgHandle gmo) qm1 of
                       (_, qm2) \<Rightarrow>
                         if MQRC mqret = MQRC_NO_MSG_AVAILABLE
                           then Return ((None, None), qm2)
                           else Return ((None, Some (exceptionOfReturn MQItoString mqret)),
                                  qm2)))))"

definition ReceiveNoWait :: "(string \<Rightarrow> int \<Rightarrow> string) \<Rightarrow> (string \<Rightarrow> string) \<Rightarrow> ConsumerImpl \<Rightarrow> ((Message option \<times> JMSException option) \<times> MQQueueManager) outcome" where
  "ReceiveNoWait MQItoString TrimSpace consumer =
     (let gmo = NewMQGMO in receiveInternal MQItoString TrimSpace consumer gmo)"

definition Receive :: "(string \<Rightarrow> int \<Rightarrow> string) \<Rightarrow> (string \<Rightarrow> string) \<Rightarrow> ConsumerImpl \<Rightarrow> 32 word \<Rightarrow> ((Message option \<times> JMSException option) \<times> MQQueueManager) outcome" where
  "Receive MQItoString TrimSpace consumer waitMillis0 =
     (let waitMillis = (if waitMillis0 \<le>s 0 then MQWI_UNLIMITED else waitMillis0);
          gmo = NewMQGMO;
          gmo = gmo\<lparr> Options := Options gmo OR MQGMO_WAIT \<rparr>;
          gmo = gmo\<lparr> WaitInterval := waitMillis \<rparr>
      in receiveInternal MQItoString TrimSpace consumer gmo)"

section \<open>Typed properties\<close>

text \<open>
  Modelled from the spec: the setters and getters of integer, double and
  boolean properties of \<open>MessageImpl\<close> (\<open>SetIntProperty\<close>, \<open>GetIntProperty\<close>,
  \<open>SetDoubleProperty\<close>, \<open>GetDoubleProperty\<close>, \<open>SetBooleanProperty\<close>,
  \<open>GetBooleanProperty\<close>) are missing from the sources at hand, which hold their
  tests only. They follow section 4.2 of the specification on the message
  handle above: a setter sets or replaces the entry with a value of its type,
  whatever the value; a getter answers the zero value of its type and no error
  for a name that is not set, converts a stored value of another type, and
  fails with \<open>BadPropertyType\<close> on a text that does not parse. The errors are
  those of the specification's taxonomy. The parsers of numbers from text
  (\<open>strconv\<close>) are parameters.
\<close>

datatype property_error =
  InvalidPropertyName
| BadPropertyType
| PropertyStoreUnavailable "32 word"

definition propertyErrorOfReturn :: "MQReturn \<Rightarrow> property_error" where
  "propertyErrorOfReturn mqret =
     (if MQRC mqret = MQRC_PROPERTY_NAME_LENGTH_ERR then InvalidPropertyName
      else PropertyStoreUnavailable (MQRC mqret))"

definition setTypedProperty :: "string \<Rightarrow> prop_value \<Rightarrow> MessageImpl \<Rightarrow> property_error option \<times> MessageImpl" where
  "setTypedProperty name v msg =
     (case SetMP (msgHandle msg) name v of
        (linkedErr, h) \<Rightarrow> (map_option propertyErrorOfReturn linkedErr, msg\<lparr> msgHandle := h \<rparr>))"

definition SetIntProperty :: "string \<Rightarrow> int \<Rightarrow> MessageImpl \<Rightarrow> property_error option \<times> MessageImpl" where
  "SetIntProperty name val msg = setTypedProperty name (PInt val) msg"

definition SetDoubleProperty :: "string \<Rightarrow> real \<Rightarrow> MessageImpl \<Rightarrow> property_error option \<times> MessageImpl" where
  "SetDoubleProperty name val msg = setTypedProperty name (PDouble val) msg"

definition SetBooleanProperty :: "string \<Rightarrow> bool \<Rightarrow> MessageImpl \<Rightarrow> property_error option \<times> MessageImpl" where
  "SetBooleanProperty name val msg = setTypedProperty name (PBool val) msg"

text \<open>
  Modelled from the spec: the inquiry that the typed getters share. It answers
  \<open>None\<close> and no error for a name that is not set.
\<close>

definition inquireProperty :: "string \<Rightarrow> MessageImpl \<Rightarrow> property_error + prop_value option" where
  "inquireProperty name msg =
     (case fst (InqMP (msgHandle msg) 0 name) of
        Inr (gotName, v) \<Rightarrow> Inr (Some v)
      | Inl mqret \<Rightarrow>
          if MQRC mqret = MQRC_PROPERTY_NOT_AVAILABLE then Inr None
          else Inl (propertyErrorOfReturn mqret))"

text \<open>
  Modelled from the spec: ``double to int: ... using standard rounding (not
  truncation)'', here to the nearest integer, a half away from zero.
\<close>

definition roundDouble :: "real \<Rightarrow> int" where
  "roundDouble d = (if 0 \<le> d then \<lfloor>d + 1 / 2\<rfloor> else - \<lfloor>- d + 1 / 2\<rfloor>)"

text \<open>
  Modelled from the spec: \<open>GetIntProperty\<close>. The specification is silent on a
  stored boolean; the repository's test \<open>TestPropertyConversionBool\<close> reads
  \<open>true\<close> as 1 and \<open>false\<close> as 0.
\<close>

definition GetIntProperty :: "(string \<Rightarrow> int option) \<Rightarrow> string \<Rightarrow> MessageImpl \<Rightarrow> int \<times> property_error option" where
  "GetIntProperty ParseInt name msg =
     (case inquireProperty name msg of
        Inl e \<Rightarrow> (0, Some e)
      | Inr None \<Rightarrow> (0, None)
      | Inr (Some (PInt n)) \<Rightarrow> (n, None)
      | Inr (Some (PString s)) \<Rightarrow>
          (case ParseInt s of Some n \<Rightarrow> (n, None) | None \<Rightarrow> (0, Some BadPropertyType))
      | Inr (Some (PDouble d)) \<Rightarrow> (roundDouble d, None)
      | Inr (Some (PBool b)) \<Rightarrow> ((if b then 1 else 0), None))"

text \<open>Modelled from the spec: \<open>GetDoubleProperty\<close>, with the same reading of a boolean.\<close>

definition GetDoubleProperty :: "(string \<Rightarrow> real option) \<Rightarrow> string \<Rightarrow> MessageImpl \<Rightarrow> real \<times> property_error option" where
  "GetDoubleProperty ParseFloat name msg =
     (case inquireProperty name msg of
        Inl e \<Rightarrow> (0, Some e)
      | Inr None \<Rightarrow> (0, None)
      | Inr (Some (PDouble d)) \<Rightarrow> (d, None)
      | Inr (Some (PString s)) \<Rightarrow>
          (case ParseFloat s of Some d \<Rightarrow> (d, None) | None \<Rightarrow> (0, Some BadPropertyType))
      | Inr (Some (PInt n)) \<Rightarrow> (real_of_int n, None)
      | Inr (Some (PBool b)) \<Rightarrow> ((if b then 1 else 0), None))"

text \<open>
  Modelled from the spec: \<open>GetBooleanProperty\<close>. A stored boolean is answered
  as it is; of the texts only \<open>true\<close> and \<open>false\<close> convert, any other text
  fails with \<open>BadPropertyType\<close>; a stored number, integer or double, reads as
  \<open>false\<close> with no error, whatever its value.
\<close>

definition GetBooleanProperty :: "string \<Rightarrow> MessageImpl \<Rightarrow> bool \<times> property_error option" where
  "GetBooleanProperty name msg =
     (case inquireProperty name msg of
        Inl e \<Rightarrow> (False, Some e)
      | Inr None \<Rightarrow> (False, None)
      | Inr (Some (PBool b)) \<Rightarrow> (b, None)
      | Inr (Some (PString s)) \<Rightarrow>
          (if s = ''true'' then (True, None)
           else if s = ''false'' then (False, None)
           else (False, Some BadPropertyType))
      | Inr (Some (PInt n)) \<Rightarrow> (False, None)
      | Inr (Some (PDouble d)) \<Rightarrow> (False, None))"

subsection \<open>What the conversion tests assert of the boolean getter\<close>





text \<open>The received message of such a test: it holds the properties that were set.\<close>

definition receivedWith :: "(string \<times> prop_value) list \<Rightarrow> MessageImpl" where
  "receivedWith props =
     \<lparr> mqmd = Some NewMQMD,
       msgHandle = \<lparr> hMsg = 1, entries = props, cursor = 0,
                     failing = (\<lambda>verb name. None) \<rparr> \<rparr>"


section \<open>Asynchronous send\<close>

text \<open>
  Modelled from the spec: the send of a producer (\<open>ProducerImpl.Send\<close>) is
  missing from the sources at hand, which hold its test only. The model
  follows sections 3 and 4.4 of the specification. The window counts the
  sends since the last check, and the failures and warnings that the
  transport has accumulated since then, with the reason of the latest. A send
  hands the message to the transport, which accepts it, or notes a warning or
  a failure without telling the sender; it then counts the send; and when the
  count has reached a positive \<open>sendCheckCount\<close> it reconciles: it reads the
  accumulated counts, resets the window, and reports one \<open>AsyncPutFailure\<close>
  with the two counts and the reason when the counts are not both zero.
\<close>

record AsyncSendWindow =
  sendCheckCount :: nat
  sendsSinceLastCheck :: nat
  accumulatedFailures :: nat
  accumulatedWarnings :: nat
  latestReason :: "32 word option"

datatype put_outcome = PutAccepted | PutWarning "32 word" | PutFailure "32 word"

record AsyncPutFailure =
  failures :: nat
  warnings :: nat
  cause :: "32 word option"

definition newWindow :: "nat \<Rightarrow> AsyncSendWindow" where
  "newWindow n = \<lparr> sendCheckCount = n, sendsSinceLastCheck = 0, accumulatedFailures = 0,
                   accumulatedWarnings = 0, latestReason = None \<rparr>"

fun transportPut :: "put_outcome \<Rightarrow> AsyncSendWindow \<Rightarrow> AsyncSendWindow" where
  "transportPut PutAccepted w = w"
| "transportPut (PutWarning rc) w =
     w\<lparr> accumulatedWarnings := accumulatedWarnings w + 1, latestReason := Some rc \<rparr>"
| "transportPut (PutFailure rc) w =
     w\<lparr> accumulatedFailures := accumulatedFailures w + 1, latestReason := Some rc \<rparr>"

definition reconcile :: "AsyncSendWindow \<Rightarrow> AsyncPutFailure option \<times> AsyncSendWindow" where
  "reconcile w =
     (let report =
        (if accumulatedFailures w + accumulatedWarnings w \<noteq> 0
         then Some \<lparr> failures = accumulatedFailures w, warnings = accumulatedWarnings w,
                     cause = latestReason w \<rparr>
         else None)
      in (report, w\<lparr> sendsSinceLastCheck := 0, accumulatedFailures := 0,
                     accumulatedWarnings := 0, latestReason := None \<rparr>))"

definition asyncSend :: "put_outcome \<Rightarrow> AsyncSendWindow \<Rightarrow> AsyncPutFailure option \<times> AsyncSendWindow" where
  "asyncSend outcome w =
     (let w1 = transportPut outcome w;
          w2 = w1\<lparr> sendsSinceLastCheck := sendsSinceLastCheck w1 + 1 \<rparr>
      in if sendCheckCount w2 > 0 \<and> sendsSinceLastCheck w2 = sendCheckCount w2
         then reconcile w2
         else (None, w2))"

text \<open>The sends of a run, one after the other, with what each of them reports.\<close>

fun sendAll :: "put_outcome list \<Rightarrow> AsyncSendWindow \<Rightarrow> AsyncPutFailure option list \<times> AsyncSendWindow" where
  "sendAll [] w = ([], w)"
| "sendAll (outcome # rest) w =
     (case asyncSend outcome w of
        (report, w') \<Rightarrow> (case sendAll rest w' of (reports, w'') \<Rightarrow> (report # reports, w'')))"

text \<open>
  The run of the specification's example: 50 messages, numbered from 1, of
  which the transport fails those from the 25th on, the queue being full.
\<close>

definition queueFullFrom25 :: "put_outcome list" where
  "queueFullFrom25 =
     map (\<lambda>k. if 25 \<le> k then PutFailure MQRC_Q_FULL else PutAccepted) [1 ..< 51]"

text \<open>
  What a run of sends holds: the number of failures, the number of warnings,
  and the reason of the latest of them (\<open>r\<close> when there is none).
\<close>

fun failuresIn :: "put_outcome list \<Rightarrow> nat" where
  "failuresIn [] = 0"
| "failuresIn (PutFailure rc # xs) = Suc (failuresIn xs)"
| "failuresIn (PutWarning rc # xs) = failuresIn xs"
| "failuresIn (PutAccepted # xs) = failuresIn xs"

fun warningsIn :: "put_outcome list \<Rightarrow> nat" where
  "warningsIn [] = 0"
| "warningsIn (PutWarning rc # xs) = Suc (warningsIn xs)"
| "warningsIn (PutFailure rc # xs) = warningsIn xs"
| "warningsIn (PutAccepted # xs) = warningsIn xs"

fun latestReasonIn :: "put_outcome list \<Rightarrow> 32 word option \<Rightarrow> 32 word option" where
  "latestReasonIn [] r = r"
| "latestReasonIn (PutAccepted # xs) r = latestReasonIn xs r"
| "latestReasonIn (PutWarning rc # xs) r = latestReasonIn xs (Some rc)"
| "latestReasonIn (PutFailure rc # xs) r = latestReasonIn xs (Some rc)"

definition blockReport :: "put_outcome list \<Rightarrow> AsyncPutFailure option" where
  "blockReport xs =
     (if failuresIn xs + warningsIn xs \<noteq> 0
      then Some \<lparr> failures = failuresIn xs, warnings = warningsIn xs,
                  cause = latestReasonIn xs None \<rparr>
      else None)"

section \<open>Sample values\<close>

text \<open>
  A message with no descriptor and no property, on a handle that the queue
  manager never refuses, and a table of reason names for \<open>MQItoString\<close> that
  knows the reasons named above.
\<close>

definition blankMessage :: MessageImpl where
  "blankMessage =
     \<lparr> mqmd = None,
       msgHandle = \<lparr> hMsg = 1, entries = [], cursor = 0,
                     failing = (\<lambda>verb name. None) \<rparr> \<rparr>"

definition reasonNames :: "string \<Rightarrow> int \<Rightarrow> string" where
  "reasonNames kind n =
     (if kind \<noteq> ''RC'' then ''''
      else if n = 2033 then ''MQRC_NO_MSG_AVAILABLE''
      else if n = 2053 then ''MQRC_Q_FULL''
      else if n = 2460 then ''MQRC_HMSG_ERROR''
      else if n = 2471 then ''MQRC_PROPERTY_NOT_AVAILABLE''
      else if n = 2513 then ''MQRC_PROPERTY_NAME_LENGTH_ERR''
      else '''')"

text \<open>
  A consumer without selector on a queue whose every get fails with the given
  reason, in a context that has made no message handle yet.
\<close>

definition failingConsumer :: "32 word \<Rightarrow> ConsumerImpl" where
  "failingConsumer rc =
     \<lparr> ctx = \<lparr> qMgr = \<lparr> liveHandles = [], nextHandle = 1 \<rparr>, sessionMode = 1,
               receiveBufferSize = 0 \<rparr>,
       qObject = \<lparr> mqget = (\<lambda>md gmo size. GetFailed \<lparr> MQRC = rc \<rparr>) \<rparr>,
       selector = '''' \<rparr>"

text \<open>
  A received message with the given properties whose handle refuses to delete
  the property of the given name, with the given reason.
\<close>

definition refusingDelete :: "string \<Rightarrow> 32 word \<Rightarrow> (string \<times> prop_value) list \<Rightarrow> MessageImpl" where
  "refusingDelete name rc props =
     \<lparr> mqmd = Some NewMQMD,
       msgHandle = \<lparr> hMsg = 1, entries = props, cursor = 0,
                     failing = (\<lambda>verb n. if verb = MQDLTMP \<and> n = name then Some rc else None) \<rparr> \<rparr>"

section \<open>Facts about the hex codec\<close>

lemma fromHexChar_hextable:
  assumes "n < 16"
  shows "fromHexChar (hextable ! n) = Some n"
proof -
  from assms have "n \<in> {0,1,2,3,4,5,6,7,8,9,10,11,12,13,14,15}" by (simp; arith)
  then show ?thesis
    by (auto simp add: fromHexChar_def hextable_def)
qed

lemma hextable_nonzero:
  assumes "n < 16"
  shows "hextable ! n \<noteq> CHR 0x00"
proof -
  from assms have "n \<in> {0,1,2,3,4,5,6,7,8,9,10,11,12,13,14,15}" by (simp; arith)
  then show ?thesis
    by (auto simp add: hextable_def)
qed

lemma of_char_div16: "(of_char v :: nat) div 16 < 16"
proof -
  have "(of_char v :: nat) < 256" by simp
  then show ?thesis by arith
qed

lemma hex_Decode_hex_digits: "hex_Decode (hex_digits bs) = (bs, None)"
  by (induction bs) (simp_all add: fromHexChar_hextable of_char_div16)

lemma length_hex_digits: "length (hex_digits bs) = 2 * length bs"
  by (induction bs) simp_all

lemma take_hex_digits: "take (2 * k) (hex_digits bs) = hex_digits (take k bs)"
proof (induction bs arbitrary: k)
  case Nil
  then show ?case by simp
next
  case (Cons b bs)
  then show ?case by (cases k) simp_all
qed

lemma hex_digits_nonzero:
  assumes "c \<in> set (hex_digits bs)"
  shows "c \<noteq> CHR 0x00"
  using assms
proof (induction bs)
  case Nil
  then show ?case by simp
next
  case (Cons b bs)
  have "hextable ! (of_char b div 16) \<noteq> CHR 0x00" "hextable ! (of_char b mod 16) \<noteq> CHR 0x00"
    by (simp_all add: hextable_nonzero of_char_div16)
  with Cons show ?case by auto
qed

lemma char_of_zero: "char_of (0::nat) = CHR 0x00"
  by (simp add: char_of_def)

lemma hex_Decode_zero_digits:
  "hex_Decode (replicate (2 * k) (CHR ''0'')) = (replicate k (CHR 0x00), None)"
  by (induction k) (simp_all add: fromHexChar_def char_of_zero)

subsection \<open>The padding loop\<close>

lemma realLength_skip:
  assumes "m \<le> n" and "\<forall>i. m \<le> i \<and> i < n \<longrightarrow> zs ! i = CHR 0x00"
  shows "realLength zs n = realLength zs m"
  using assms
proof (induction n)
  case 0
  then show ?case by simp
next
  case (Suc n)
  show ?case
  proof (cases "m = Suc n")
    case True
    then show ?thesis by simp
  next
    case False
    with Suc.prems have "m \<le> n" "zs ! n = CHR 0x00" by auto
    with Suc show ?thesis by simp
  qed
qed

lemma realLength_stop:
  assumes "0 < n" and "zs ! (n - 1) \<noteq> CHR 0x00"
  shows "realLength zs n = n"
  using assms by (cases n) simp_all

lemma realLength_hex_digits_padded:
  "realLength (hex_digits bs @ replicate k (CHR 0x00)) (length (hex_digits bs) + k)
     = length (hex_digits bs)"
proof -
  let ?zs = "hex_digits bs @ replicate k (CHR 0x00)"
  have "realLength ?zs (length (hex_digits bs) + k) = realLength ?zs (length (hex_digits bs))"
    by (rule realLength_skip) (auto simp add: nth_append)
  also have "\<dots> = length (hex_digits bs)"
  proof (cases "bs = []")
    case True
    then show ?thesis by simp
  next
    case False
    then have pos: "0 < length (hex_digits bs)" by (simp add: length_hex_digits)
    then have "?zs ! (length (hex_digits bs) - 1) \<in> set (hex_digits bs)"
      by (simp add: nth_append)
    then have "?zs ! (length (hex_digits bs) - 1) \<noteq> CHR 0x00"
      by (rule hex_digits_nonzero)
    with pos show ?thesis by (rule realLength_stop)
  qed
  finally show ?thesis .
qed

lemma realLength_all_zero:
  assumes "\<forall>c \<in> set zs. c = CHR 0x00"
  shows "realLength zs (length zs) = 0"
proof -
  have "realLength zs (length zs) = realLength zs 0"
    by (rule realLength_skip) (use assms in auto)
  then show ?thesis by simp
qed

subsection \<open>Literal text through the correlation identifier\<close>

lemma convert_literal:
  assumes "snd (hex_DecodeString T) \<noteq> None"
  shows "convertStringToMQBytes T
     = hex_digits (take 24 T) @ replicate (24 - 2 * length T) (CHR 0x00)"
proof -
  obtain d e where de: "hex_DecodeString T = (d, Some e)"
    using assms by (cases "hex_DecodeString T") auto
  show ?thesis
  proof (cases "length T \<le> 24")
    case True
    then show ?thesis
      by (simp add: convertStringToMQBytes_def de hex_Encode_def hex_EncodedLen_def
          length_hex_digits Let_def mult.commute)
  next
    case False
    then have "take 48 (hex_digits T) = hex_digits (take 24 T)"
      using take_hex_digits [of 24 T] by simp
    with False show ?thesis
      by (simp add: convertStringToMQBytes_def de hex_Encode_def hex_EncodedLen_def
          length_hex_digits Let_def)
  qed
qed

lemma roundtrip_literal:
  assumes "snd (hex_DecodeString T) \<noteq> None"
  shows "GetJMSCorrelationID (SetJMSCorrelationID T msg) = take 24 T"
proof -
  let ?bs = "hex_digits (take 24 T) @ replicate (24 - 2 * length T) (CHR 0x00)"
  have len: "length ?bs = length (hex_digits (take 24 T)) + (24 - 2 * length T)" by simp
  have rl: "realLength ?bs (length ?bs) = length (hex_digits (take 24 T))"
    unfolding len by (rule realLength_hex_digits_padded)
  show ?thesis
    using rl
    by (simp add: GetJMSCorrelationID_def SetJMSCorrelationID_def convert_literal [OF assms]
        hex_Decode_hex_digits Let_def del: length_append)
qed

lemma decode_all_zero:
  assumes "\<forall>c \<in> set correlIDBytes. c = CHR 0x00"
  shows "GetJMSCorrelationID (msg\<lparr> mqmd := Some (md\<lparr> CorrelId := Some correlIDBytes \<rparr>) \<rparr>) = ''''"
  by (simp add: GetJMSCorrelationID_def realLength_all_zero [OF assms])

lemma convert_fifty_zero_digits:
  "convertStringToMQBytes (replicate 50 (CHR ''0'')) = replicate 25 (CHR 0x00)"
proof -
  have "hex_Decode (replicate (2 * 25) (CHR ''0'')) = (replicate 25 (CHR 0x00), None)"
    by (rule hex_Decode_zero_digits)
  then show ?thesis
    by (simp add: convertStringToMQBytes_def hex_DecodeString_def)
qed

section \<open>Claims about the correlation identifier\<close>

text \<open>
  Claim C1. A literal text of more than 12 characters should come back from
  the correlation identifier as its first 12 characters, as the repository's
  test \<open>TestCorrelIDParsing\<close> asserts for the text below. The function
  \<open>convertStringToMQBytes\<close> cuts the hex digits of the text at 48, not at 24, so
  the first 24 characters come back: here the text of the test, which should
  read \<open>ThisIsAVeryL\<close>, and a text of 13 characters, which is not cut at all.
\<close>

theorem long_literal_comes_back_with_24_characters:
  "GetJMSCorrelationID (SetJMSCorrelationID
      ''ThisIsAVeryLongCorrelationIDWhichIsMoreThanTwentyFourCharacters'' msg)
     = ''ThisIsAVeryLongCorrelati''
   \<and> GetJMSCorrelationID (SetJMSCorrelationID ''Hello World!!'' msg) = ''Hello World!!''"
proof -
  have a: "snd (hex_DecodeString
      ''ThisIsAVeryLongCorrelationIDWhichIsMoreThanTwentyFourCharacters'') \<noteq> None"
    by (simp add: hex_DecodeString_def fromHexChar_def)
  have b: "snd (hex_DecodeString ''Hello World!!'') \<noteq> None"
    by (simp add: hex_DecodeString_def fromHexChar_def)
  show ?thesis
    using roundtrip_literal [OF a, of msg] roundtrip_literal [OF b, of msg] by simp
qed

text \<open>
  Claim C3. A text of at most 12 characters that does not decode as hex digits
  comes back from the correlation identifier unchanged.
\<close>

theorem short_literal_round_trip:
  assumes "snd (hex_DecodeString T) \<noteq> None" and "length T \<le> 12"
  shows "GetJMSCorrelationID (SetJMSCorrelationID T msg) = T"
  using roundtrip_literal [OF assms(1), of msg] assms(2) by simp

theorem short_literal_round_trip_witness:
  "snd (hex_DecodeString ''Hello World'') \<noteq> None \<and> length ''Hello World'' \<le> 12
   \<and> GetJMSCorrelationID (SetJMSCorrelationID ''Hello World'' blankMessage) = ''Hello World''"
proof -
  have a: "snd (hex_DecodeString ''Hello World'') \<noteq> None"
    by (simp add: hex_DecodeString_def fromHexChar_def)
  have b: "length ''Hello World'' \<le> 12" by simp
  show ?thesis
    using a b short_literal_round_trip [OF a b, of blankMessage] by simp
qed

text \<open>
  Claim C4. An identifier of zero bytes only reads as the empty text: the
  padding loop leaves the length 0, and decoding no bytes gives no text. The
  50 digits \<open>0\<close> are the hex form of 25 zero bytes, and come back as the empty
  text.
\<close>

theorem zero_identifier_reads_as_empty:
  "((\<forall>c \<in> set correlIDBytes. c = CHR 0x00) \<longrightarrow>
      realLength correlIDBytes (length correlIDBytes) = 0
      \<and> GetJMSCorrelationID (msg\<lparr> mqmd := Some (md\<lparr> CorrelId := Some correlIDBytes \<rparr>) \<rparr>) = '''')
   \<and> GetJMSCorrelationID (SetJMSCorrelationID (replicate 50 (CHR ''0'')) msg) = ''''"
proof (intro conjI impI)
  assume a: "\<forall>c \<in> set correlIDBytes. c = CHR 0x00"
  from a show "realLength correlIDBytes (length correlIDBytes) = 0"
    by (rule realLength_all_zero)
  from a show "GetJMSCorrelationID (msg\<lparr> mqmd := Some (md\<lparr> CorrelId := Some correlIDBytes \<rparr>) \<rparr>) = ''''"
    by (rule decode_all_zero)
next
  have z: "\<forall>c \<in> set (replicate 25 (CHR 0x00)). c = CHR 0x00"
    by simp
  show "GetJMSCorrelationID (SetJMSCorrelationID (replicate 50 (CHR ''0'')) msg) = ''''"
    unfolding SetJMSCorrelationID_def Let_def convert_fifty_zero_digits
    using z by (rule decode_all_zero)
qed

theorem zero_identifier_reads_as_empty_witness:
  "set (replicate 24 (CHR 0x00)) = {CHR 0x00}
   \<and> CorrelId NewMQMD = Some (replicate 24 (CHR 0x00))
   \<and> GetJMSCorrelationID (blankMessage\<lparr> mqmd := Some NewMQMD \<rparr>) = ''''"
proof -
  have a: "\<forall>c \<in> set (replicate 24 (CHR 0x00)). c = CHR 0x00"
    by simp
  have b: "NewMQMD\<lparr> CorrelId := Some (replicate 24 (CHR 0x00)) \<rparr> = NewMQMD"
    by (simp add: NewMQMD_def)
  have "(\<forall>c \<in> set (replicate 24 (CHR 0x00)). c = CHR 0x00) \<longrightarrow>
      realLength (replicate 24 (CHR 0x00)) (length (replicate 24 (CHR 0x00))) = 0
      \<and> GetJMSCorrelationID (blankMessage\<lparr> mqmd := Some (NewMQMD\<lparr> CorrelId := Some (replicate 24 (CHR 0x00)) \<rparr>) \<rparr>) = ''''"
    using zero_identifier_reads_as_empty
      [where correlIDBytes = "replicate 24 (CHR 0x00)" and msg = blankMessage and md = NewMQMD]
    by (rule conjunct1)
  with a have "GetJMSCorrelationID (blankMessage\<lparr> mqmd := Some (NewMQMD\<lparr> CorrelId := Some (replicate 24 (CHR 0x00)) \<rparr>) \<rparr>) = ''''"
    by blast
  then have c: "GetJMSCorrelationID (blankMessage\<lparr> mqmd := Some NewMQMD \<rparr>) = ''''"
    unfolding b .
  have d: "set (replicate 24 (CHR 0x00)) = {CHR 0x00}"
    by simp
  have e: "CorrelId NewMQMD = Some (replicate 24 (CHR 0x00))"
    by (simp add: NewMQMD_def)
  from d e c show ?thesis by (intro conjI)
qed

text \<open>
  Claim C8. When the bytes that are left after the padding do not decode as hex
  digits, the identifier reads as the hex digits of all its bytes. So the
  message identifier below, 48 hex digits, comes back as it was given: it is
  stored as its 24 bytes, of which the second is no hex digit.
\<close>

theorem undecodable_identifier_reads_as_hex:
  "(snd (hex_Decode (take (realLength correlIDBytes (length correlIDBytes)) correlIDBytes)) \<noteq> None
      \<longrightarrow> GetJMSCorrelationID (msg\<lparr> mqmd := Some (md\<lparr> CorrelId := Some correlIDBytes \<rparr>) \<rparr>)
            = hex_EncodeToString correlIDBytes)
   \<and> GetJMSCorrelationID (SetJMSCorrelationID
        ''414d5120514d312020202020202020201017155c0255b621'' msg)
      = ''414d5120514d312020202020202020201017155c0255b621''"
proof -
  have general: "snd (hex_Decode (take (realLength correlIDBytes (length correlIDBytes)) correlIDBytes)) \<noteq> None
      \<longrightarrow> GetJMSCorrelationID (msg\<lparr> mqmd := Some (md\<lparr> CorrelId := Some correlIDBytes \<rparr>) \<rparr>)
            = hex_EncodeToString correlIDBytes"
    by (cases "hex_Decode (take (realLength correlIDBytes (length correlIDBytes)) correlIDBytes)")
      (auto simp add: GetJMSCorrelationID_def Let_def)
  have conv: "convertStringToMQBytes ''414d5120514d312020202020202020201017155c0255b621''
      = [CHR 0x41, CHR 0x4d, CHR 0x51, CHR 0x20, CHR 0x51, CHR 0x4d, CHR 0x31, CHR 0x20,
         CHR 0x20, CHR 0x20, CHR 0x20, CHR 0x20, CHR 0x20, CHR 0x20, CHR 0x20, CHR 0x20,
         CHR 0x10, CHR 0x17, CHR 0x15, CHR 0x5c, CHR 0x02, CHR 0x55, CHR 0xb6, CHR 0x21]"
    by code_simp
  have "GetJMSCorrelationID (SetJMSCorrelationID
        ''414d5120514d312020202020202020201017155c0255b621'' msg)
      = ''414d5120514d312020202020202020201017155c0255b621''"
    unfolding SetJMSCorrelationID_def Let_def conv
    by (simp add: GetJMSCorrelationID_def fromHexChar_def hex_EncodeToString_def hextable_def)
  with general show ?thesis by blast
qed

theorem undecodable_identifier_reads_as_hex_witness:
  "snd (hex_Decode (take (realLength [CHR 0x01, CHR 0x02] (length [CHR 0x01, CHR 0x02]))
          [CHR 0x01, CHR 0x02])) \<noteq> None
   \<and> GetJMSCorrelationID (blankMessage\<lparr> mqmd := Some (NewMQMD\<lparr> CorrelId := Some [CHR 0x01, CHR 0x02] \<rparr>) \<rparr>)
      = ''0102''"
proof -
  have a: "snd (hex_Decode (take (realLength [CHR 0x01, CHR 0x02] (length [CHR 0x01, CHR 0x02]))
          [CHR 0x01, CHR 0x02])) \<noteq> None"
    by (simp add: fromHexChar_def)
  have b: "hex_EncodeToString [CHR 0x01, CHR 0x02] = ''0102''"
    by (simp add: hex_EncodeToString_def hextable_def)
  show ?thesis
    using a b undecodable_identifier_reads_as_hex
      [where correlIDBytes = "[CHR 0x01, CHR 0x02]" and msg = blankMessage and md = NewMQMD]
    by simp
qed

section \<open>Claims about the selector\<close>

lemma splitFrom_no_separator:
  assumes "sep \<notin> set s"
  shows "splitFrom piece sep s = [piece @ s]"
  using assms by (induction s arbitrary: piece) auto

lemma strings_Split_no_separator:
  assumes "sep \<notin> set s"
  shows "strings_Split s sep = [s]"
  using assms by (simp add: strings_Split_def splitFrom_no_separator)

text \<open>
  Claim C5. The empty selector succeeds and leaves the descriptor as it was, so
  that no identifier is asked for. A selector with one \<open>=\<close> whose field is
  neither \<open>JMSCorrelationID\<close> nor \<open>JMSMessageID\<close> fails with the error of an
  unsupported field. A selector without \<open>=\<close>, one whose value is not within
  single quotes, and one whose quoted value is empty or is the prefix \<open>ID:\<close>
  alone fail with an error of a malformed selector. No failure changes the
  descriptor. This holds for any function in the place of \<open>strings.TrimSpace\<close>.
\<close>

theorem selector_compilation:
  "applySelector TrimSpace '''' getmqmd = Return (None, getmqmd)
   \<and> (strings_Split sel (CHR ''='') = [field, val]
        \<and> TrimSpace field \<noteq> ''JMSCorrelationID'' \<and> TrimSpace field \<noteq> ''JMSMessageID''
      \<longrightarrow> (\<exists>err. applySelector TrimSpace sel getmqmd = Return (Some err, getmqmd)
             \<and> err = ErrorsNew
                 ''Only selectors on JMSCorrelationID and JMSMessageID are currently supported''
             \<and> selectorErrorKind err = UnsupportedSelectorField))
   \<and> (sel \<noteq> '''' \<and> CHR ''='' \<notin> set sel
      \<longrightarrow> (\<exists>err. applySelector TrimSpace sel getmqmd = Return (Some err, getmqmd)
             \<and> err = ErrorsNew (''Unable to parse selector '' @ sel)
             \<and> selectorErrorKind err = MalformedSelector))
   \<and> (strings_Split sel (CHR ''='') = [field, val]
        \<and> (TrimSpace field = ''JMSCorrelationID'' \<or> TrimSpace field = ''JMSMessageID'')
        \<and> \<not> (strings_HasPrefix (TrimSpace val) [CHR 0x27]
               \<and> strings_HasSuffix (TrimSpace val) [CHR 0x27])
      \<longrightarrow> (\<exists>err. applySelector TrimSpace sel getmqmd = Return (Some err, getmqmd)
             \<and> err = ErrorsNew (''Unable to parse quoted string from '' @ sel)
             \<and> selectorErrorKind err = MalformedSelector))
   \<and> (strings_Split sel (CHR ''='') = [field, val]
        \<and> (TrimSpace field = ''JMSCorrelationID'' \<or> TrimSpace field = ''JMSMessageID'')
        \<and> strings_HasPrefix (TrimSpace val) [CHR 0x27]
        \<and> strings_HasSuffix (TrimSpace val) [CHR 0x27]
        \<and> strings_Split (TrimSpace val) (CHR 0x27) = s0 # s1 # others
        \<and> (s1 = '''' \<or> s1 = ''ID:'')
      \<longrightarrow> (\<exists>err. applySelector TrimSpace sel getmqmd = Return (Some err, getmqmd)
             \<and> err = ErrorsNew ''No value was found for selector string''
             \<and> selectorErrorKind err = MalformedSelector))"
proof (intro conjI impI)
  show "applySelector TrimSpace '''' getmqmd = Return (None, getmqmd)"
    by (simp add: applySelector_def)
next
  assume a: "strings_Split sel (CHR ''='') = [field, val]
        \<and> TrimSpace field \<noteq> ''JMSCorrelationID'' \<and> TrimSpace field \<noteq> ''JMSMessageID''"
  then have ne: "sel \<noteq> ''''"
    by (auto simp add: strings_Split_def)
  from a ne show "\<exists>err. applySelector TrimSpace sel getmqmd = Return (Some err, getmqmd)
             \<and> err = ErrorsNew
                 ''Only selectors on JMSCorrelationID and JMSMessageID are currently supported''
             \<and> selectorErrorKind err = UnsupportedSelectorField"
    by (simp add: applySelector_def Let_def)
next
  assume a: "sel \<noteq> '''' \<and> CHR ''='' \<notin> set sel"
  then have "strings_Split sel (CHR ''='') = [sel]"
    by (simp add: strings_Split_no_separator)
  with a show "\<exists>err. applySelector TrimSpace sel getmqmd = Return (Some err, getmqmd)
             \<and> err = ErrorsNew (''Unable to parse selector '' @ sel)
             \<and> selectorErrorKind err = MalformedSelector"
    by (simp add: applySelector_def Let_def)
next
  assume a: "strings_Split sel (CHR ''='') = [field, val]
        \<and> (TrimSpace field = ''JMSCorrelationID'' \<or> TrimSpace field = ''JMSMessageID'')
        \<and> \<not> (strings_HasPrefix (TrimSpace val) [CHR 0x27]
               \<and> strings_HasSuffix (TrimSpace val) [CHR 0x27])"
  then have ne: "sel \<noteq> ''''"
    by (auto simp add: strings_Split_def)
  from a ne show "\<exists>err. applySelector TrimSpace sel getmqmd = Return (Some err, getmqmd)
             \<and> err = ErrorsNew (''Unable to parse quoted string from '' @ sel)
             \<and> selectorErrorKind err = MalformedSelector"
    by (auto simp add: applySelector_def Let_def)
next
  assume a: "strings_Split sel (CHR ''='') = [field, val]
        \<and> (TrimSpace field = ''JMSCorrelationID'' \<or> TrimSpace field = ''JMSMessageID'')
        \<and> strings_HasPrefix (TrimSpace val) [CHR 0x27]
        \<and> strings_HasSuffix (TrimSpace val) [CHR 0x27]
        \<and> strings_Split (TrimSpace val) (CHR 0x27) = s0 # s1 # others
        \<and> (s1 = '''' \<or> s1 = ''ID:'')"
  then have ne: "sel \<noteq> ''''"
    by (auto simp add: strings_Split_def)
  have strip: "(if strings_HasPrefix s1 ''ID:'' then drop 3 s1 else s1) = ''''"
    using a by (auto simp add: strings_HasPrefix_def)
  from a ne show "\<exists>err. applySelector TrimSpace sel getmqmd = Return (Some err, getmqmd)
             \<and> err = ErrorsNew ''No value was found for selector string''
             \<and> selectorErrorKind err = MalformedSelector"
    unfolding applySelector_def Let_def using strip by auto
qed

theorem selector_compilation_witness:
  "strings_Split (''JMSPriority = '' @ [CHR 0x27] @ ''5'' @ [CHR 0x27]) (CHR ''='')
      = [''JMSPriority '', '' '' @ [CHR 0x27] @ ''5'' @ [CHR 0x27]]
   \<and> asciiTrimSpace ''JMSPriority '' = ''JMSPriority''
   \<and> applySelector asciiTrimSpace (''JMSPriority = '' @ [CHR 0x27] @ ''5'' @ [CHR 0x27]) NewMQMD
      = Return (Some (ErrorsNew
          ''Only selectors on JMSCorrelationID and JMSMessageID are currently supported''), NewMQMD)
   \<and> CHR ''='' \<notin> set ''JMSCorrelationID''
   \<and> applySelector asciiTrimSpace ''JMSCorrelationID'' NewMQMD
      = Return (Some (ErrorsNew ''Unable to parse selector JMSCorrelationID''), NewMQMD)
   \<and> strings_Split ''JMSCorrelationID = abc'' (CHR ''='') = [''JMSCorrelationID '', '' abc'']
   \<and> \<not> strings_HasPrefix (asciiTrimSpace '' abc'') [CHR 0x27]
   \<and> applySelector asciiTrimSpace ''JMSCorrelationID = abc'' NewMQMD
      = Return (Some (ErrorsNew ''Unable to parse quoted string from JMSCorrelationID = abc''),
          NewMQMD)
   \<and> strings_Split (''JMSMessageID = '' @ [CHR 0x27] @ ''ID:'' @ [CHR 0x27]) (CHR ''='')
      = [''JMSMessageID '', '' '' @ [CHR 0x27] @ ''ID:'' @ [CHR 0x27]]
   \<and> strings_Split (asciiTrimSpace ('' '' @ [CHR 0x27] @ ''ID:'' @ [CHR 0x27])) (CHR 0x27)
      = ['''', ''ID:'', '''']
   \<and> applySelector asciiTrimSpace (''JMSMessageID = '' @ [CHR 0x27] @ ''ID:'' @ [CHR 0x27]) NewMQMD
      = Return (Some (ErrorsNew ''No value was found for selector string''), NewMQMD)"
proof -
  have h2: "strings_Split (''JMSPriority = '' @ [CHR 0x27] @ ''5'' @ [CHR 0x27]) (CHR ''='')
      = [''JMSPriority '', '' '' @ [CHR 0x27] @ ''5'' @ [CHR 0x27]]"
    by (simp add: strings_Split_def)
  have t2: "asciiTrimSpace ''JMSPriority '' = ''JMSPriority''"
    by (simp add: asciiTrimSpace_def asciiSpace_def)
  have c2: "applySelector asciiTrimSpace (''JMSPriority = '' @ [CHR 0x27] @ ''5'' @ [CHR 0x27]) NewMQMD
      = Return (Some (ErrorsNew
          ''Only selectors on JMSCorrelationID and JMSMessageID are currently supported''), NewMQMD)"
    using selector_compilation [where TrimSpace = asciiTrimSpace and getmqmd = NewMQMD
        and sel = "''JMSPriority = '' @ [CHR 0x27] @ ''5'' @ [CHR 0x27]"
        and field = "''JMSPriority ''" and val = "'' '' @ [CHR 0x27] @ ''5'' @ [CHR 0x27]",
        THEN conjunct2, THEN conjunct1] h2 t2
    by simp
  have h3: "CHR ''='' \<notin> set ''JMSCorrelationID''"
    by simp
  have c3: "applySelector asciiTrimSpace ''JMSCorrelationID'' NewMQMD
      = Return (Some (ErrorsNew ''Unable to parse selector JMSCorrelationID''), NewMQMD)"
    using selector_compilation [where TrimSpace = asciiTrimSpace and getmqmd = NewMQMD
        and sel = "''JMSCorrelationID''",
        THEN conjunct2, THEN conjunct2, THEN conjunct1] h3
    by simp
  have h4: "strings_Split ''JMSCorrelationID = abc'' (CHR ''='') = [''JMSCorrelationID '', '' abc'']"
    by (simp add: strings_Split_def)
  have t4: "asciiTrimSpace ''JMSCorrelationID '' = ''JMSCorrelationID''"
    by (simp add: asciiTrimSpace_def asciiSpace_def)
  have p4: "\<not> strings_HasPrefix (asciiTrimSpace '' abc'') [CHR 0x27]"
    by (simp add: asciiTrimSpace_def asciiSpace_def strings_HasPrefix_def)
  have c4: "applySelector asciiTrimSpace ''JMSCorrelationID = abc'' NewMQMD
      = Return (Some (ErrorsNew ''Unable to parse quoted string from JMSCorrelationID = abc''),
          NewMQMD)"
    using selector_compilation [where TrimSpace = asciiTrimSpace and getmqmd = NewMQMD
        and sel = "''JMSCorrelationID = abc''"
        and field = "''JMSCorrelationID ''" and val = "'' abc''",
        THEN conjunct2, THEN conjunct2, THEN conjunct2, THEN conjunct1] h4 t4 p4
    by simp
  have h5: "strings_Split (''JMSMessageID = '' @ [CHR 0x27] @ ''ID:'' @ [CHR 0x27]) (CHR ''='')
      = [''JMSMessageID '', '' '' @ [CHR 0x27] @ ''ID:'' @ [CHR 0x27]]"
    by (simp add: strings_Split_def)
  have t5: "asciiTrimSpace ''JMSMessageID '' = ''JMSMessageID''"
    by (simp add: asciiTrimSpace_def asciiSpace_def)
  have v5: "asciiTrimSpace ('' '' @ [CHR 0x27] @ ''ID:'' @ [CHR 0x27]) = [CHR 0x27] @ ''ID:'' @ [CHR 0x27]"
    by (simp add: asciiTrimSpace_def asciiSpace_def)
  have s5: "strings_Split (asciiTrimSpace ('' '' @ [CHR 0x27] @ ''ID:'' @ [CHR 0x27])) (CHR 0x27)
      = ['''', ''ID:'', '''']"
    unfolding v5 by (simp add: strings_Split_def)
  have q5: "strings_HasPrefix (asciiTrimSpace ('' '' @ [CHR 0x27] @ ''ID:'' @ [CHR 0x27])) [CHR 0x27]
      \<and> strings_HasSuffix (asciiTrimSpace ('' '' @ [CHR 0x27] @ ''ID:'' @ [CHR 0x27])) [CHR 0x27]"
    unfolding v5 by (simp add: strings_HasPrefix_def strings_HasSuffix_def)
  have c5: "applySelector asciiTrimSpace (''JMSMessageID = '' @ [CHR 0x27] @ ''ID:'' @ [CHR 0x27]) NewMQMD
      = Return (Some (ErrorsNew ''No value was found for selector string''), NewMQMD)"
    using selector_compilation [where TrimSpace = asciiTrimSpace and getmqmd = NewMQMD
        and sel = "''JMSMessageID = '' @ [CHR 0x27] @ ''ID:'' @ [CHR 0x27]"
        and field = "''JMSMessageID ''" and val = "'' '' @ [CHR 0x27] @ ''ID:'' @ [CHR 0x27]"
        and ?s0.0 = "''''" and ?s1.0 = "''ID:''" and others = "['''']",
        THEN conjunct2, THEN conjunct2, THEN conjunct2, THEN conjunct2] h5 t5 s5 q5
    by simp
  from h2 t2 c2 h3 c3 h4 p4 c4 h5 s5 c5 show ?thesis
    by (intro conjI)
qed

section \<open>Claims about receiving\<close>

lemma decimal_digit_value:
  assumes "d < 10"
  shows "(of_char (''0123456789'' ! d) :: nat) = 48 + d"
proof -
  from assms have "d \<in> {0,1,2,3,4,5,6,7,8,9}" by (simp; arith)
  then show ?thesis by auto
qed

lemma decimalValue_decimal_digits: "decimalValue (decimal_digits n) = n"
proof (induction n rule: decimal_digits.induct)
  case (1 n)
  show ?case
  proof (cases "n < 10")
    case True
    then show ?thesis
      by (subst decimal_digits.simps)
        (simp add: decimalValue_def decimal_digit_value del: decimal_digits.simps)
  next
    case False
    with 1 have ih: "decimalValue (decimal_digits (n div 10)) = n div 10"
      by (simp del: decimal_digits.simps)
    have "decimalValue (decimal_digits n)
        = 10 * decimalValue (decimal_digits (n div 10)) + n mod 10"
      using False
      by (subst decimal_digits.simps)
        (simp add: decimalValue_def decimal_digit_value del: decimal_digits.simps)
    with ih show ?thesis by (simp del: decimal_digits.simps)
  qed
qed

lemma strconv_Itoa_nonnegative:
  assumes "0 \<le> i"
  shows "int (decimalValue (strconv_Itoa i)) = i"
  using assms by (simp add: strconv_Itoa_def decimalValue_decimal_digits del: decimal_digits.simps)

lemma receiveInternal_get_failed:
  assumes sel: "applySelector TrimSpace (selector consumer) NewMQMD = Return (None, md)"
    and get: "\<forall>d g n. mqget (qObject consumer) d g n = GetFailed mqret"
  shows "receiveInternal MQItoString TrimSpace consumer gmo0 =
     Return ((None, if MQRC mqret = MQRC_NO_MSG_AVAILABLE then None
                    else Some (exceptionOfReturn MQItoString mqret)),
             (qMgr (ctx consumer))
               \<lparr> liveHandles := removeAll (nextHandle (qMgr (ctx consumer)))
                                   (liveHandles (qMgr (ctx consumer))),
                 nextHandle := nextHandle (qMgr (ctx consumer)) + 1 \<rparr>)"
  by (simp add: receiveInternal_def Let_def CrtMH_def DltMH_def sel get)

text \<open>
  Claim C10. Let the selector of the consumer be accepted and the get of the
  queue fail with the reason \<open>mqret\<close>. Then \<open>ReceiveNoWait\<close> and \<open>Receive\<close>
  return no message; with the reason \<open>MQRC_NO_MSG_AVAILABLE\<close> they return no
  exception, with any other reason an exception whose error code is the
  decimal text of the reason (the digits that denote it, when it is not
  negative) and whose linked error is the failure of the get. In both cases the message handle that the call has created is no
  longer among the handles of the queue manager.
\<close>

theorem receive_on_failed_get:
  assumes "applySelector TrimSpace (selector consumer) NewMQMD = Return (None, md)"
    and "\<forall>d g n. mqget (qObject consumer) d g n = GetFailed mqret"
  shows "\<exists>jmsErr qm.
      ReceiveNoWait MQItoString TrimSpace consumer = Return ((None, jmsErr), qm)
    \<and> Receive MQItoString TrimSpace consumer waitMillis = Return ((None, jmsErr), qm)
    \<and> (MQRC mqret = MQRC_NO_MSG_AVAILABLE \<longrightarrow> jmsErr = None)
    \<and> (MQRC mqret \<noteq> MQRC_NO_MSG_AVAILABLE \<longrightarrow>
         (\<exists>e. jmsErr = Some e \<and> errorCode e = strconv_Itoa (sint (MQRC mqret))
            \<and> (0 \<le> sint (MQRC mqret)
                 \<longrightarrow> int (decimalValue (errorCode e)) = sint (MQRC mqret))
            \<and> reason e = MQItoString ''RC'' (sint (MQRC mqret))
            \<and> linkedError e = Some (MQError mqret)))
    \<and> hMsg (fst (CrtMH (qMgr (ctx consumer)))) \<notin> set (liveHandles qm)"
  by (simp add: ReceiveNoWait_def Receive_def Let_def receiveInternal_get_failed [OF assms]
      exceptionOfReturn_def CreateJMSException_def CrtMH_def strconv_Itoa_nonnegative
      del: decimal_digits.simps)

theorem receive_on_failed_get_witness:
  "applySelector asciiTrimSpace (selector (failingConsumer 2033)) NewMQMD = Return (None, NewMQMD)
   \<and> (\<forall>d g n. mqget (qObject (failingConsumer 2033)) d g n = GetFailed \<lparr> MQRC = 2033 \<rparr>)
   \<and> ReceiveNoWait reasonNames asciiTrimSpace (failingConsumer 2033)
        = Return ((None, None), \<lparr> liveHandles = [], nextHandle = 2 \<rparr>)
   \<and> Receive reasonNames asciiTrimSpace (failingConsumer 2033) 500
        = Return ((None, None), \<lparr> liveHandles = [], nextHandle = 2 \<rparr>)
   \<and> applySelector asciiTrimSpace (selector (failingConsumer 2053)) NewMQMD = Return (None, NewMQMD)
   \<and> (\<forall>d g n. mqget (qObject (failingConsumer 2053)) d g n = GetFailed \<lparr> MQRC = 2053 \<rparr>)
   \<and> ReceiveNoWait reasonNames asciiTrimSpace (failingConsumer 2053)
        = Return ((None, Some \<lparr> reason = ''MQRC_Q_FULL'', errorCode = ''2053'',
                                 linkedError = Some (MQError \<lparr> MQRC = 2053 \<rparr>) \<rparr>),
                  \<lparr> liveHandles = [], nextHandle = 2 \<rparr>)"
proof -
  have s1: "applySelector asciiTrimSpace (selector (failingConsumer 2033)) NewMQMD
      = Return (None, NewMQMD)"
    by (simp add: failingConsumer_def applySelector_def)
  have g1: "\<forall>d g n. mqget (qObject (failingConsumer 2033)) d g n = GetFailed \<lparr> MQRC = 2033 \<rparr>"
    by (simp add: failingConsumer_def)
  have s2: "applySelector asciiTrimSpace (selector (failingConsumer 2053)) NewMQMD
      = Return (None, NewMQMD)"
    by (simp add: failingConsumer_def applySelector_def)
  have g2: "\<forall>d g n. mqget (qObject (failingConsumer 2053)) d g n = GetFailed \<lparr> MQRC = 2053 \<rparr>"
    by (simp add: failingConsumer_def)
  obtain e1 q1 where r1:
    "ReceiveNoWait reasonNames asciiTrimSpace (failingConsumer 2033) = Return ((None, e1), q1)"
    "Receive reasonNames asciiTrimSpace (failingConsumer 2033) 500 = Return ((None, e1), q1)"
    "MQRC \<lparr> MQRC = 2033 \<rparr> = MQRC_NO_MSG_AVAILABLE \<longrightarrow> e1 = None"
    using receive_on_failed_get [OF s1 g1, of reasonNames 500] by blast
  have e1: "e1 = None"
    using r1(3) by (simp add: MQRC_NO_MSG_AVAILABLE_def)
  have q1: "q1 = \<lparr> liveHandles = [], nextHandle = 2 \<rparr>"
    using r1(1) by (simp add: ReceiveNoWait_def receiveInternal_def Let_def CrtMH_def DltMH_def
        failingConsumer_def applySelector_def MQRC_NO_MSG_AVAILABLE_def)
  obtain e2 q2 where r2:
    "ReceiveNoWait reasonNames asciiTrimSpace (failingConsumer 2053) = Return ((None, e2), q2)"
    "MQRC \<lparr> MQRC = 2053 \<rparr> \<noteq> MQRC_NO_MSG_AVAILABLE \<longrightarrow>
       (\<exists>e. e2 = Some e \<and> errorCode e = strconv_Itoa (sint (MQRC \<lparr> MQRC = 2053 \<rparr>))
          \<and> reason e = reasonNames ''RC'' (sint (MQRC \<lparr> MQRC = 2053 \<rparr>))
          \<and> linkedError e = Some (MQError \<lparr> MQRC = 2053 \<rparr>))"
    using receive_on_failed_get [OF s2 g2, of reasonNames 500] by blast
  have e2: "e2 = Some \<lparr> reason = ''MQRC_Q_FULL'', errorCode = ''2053'',
                        linkedError = Some (MQError \<lparr> MQRC = 2053 \<rparr>) \<rparr>"
    using r2(2) by (auto simp add: MQRC_NO_MSG_AVAILABLE_def strconv_Itoa_def reasonNames_def)
  have q2: "q2 = \<lparr> liveHandles = [], nextHandle = 2 \<rparr>"
    using r2(1) by (simp add: ReceiveNoWait_def receiveInternal_def Let_def CrtMH_def DltMH_def
        failingConsumer_def applySelector_def MQRC_NO_MSG_AVAILABLE_def)
  from s1 g1 r1(1,2) s2 g2 r2(1) show ?thesis
    unfolding e1 q1 e2 q2 by (intro conjI)
qed

section \<open>Facts about the message handle\<close>

declare getPropertiesLoop.simps [simp del]

lemma inquiry_options_next:
  "(MQIMPO_CONVERT_VALUE OR MQIMPO_INQ_NEXT) AND MQIMPO_INQ_NEXT \<noteq> 0"
  "(MQIMPO_CONVERT_VALUE OR MQIMPO_INQ_FIRST) AND MQIMPO_INQ_NEXT = 0"
  by (simp_all add: MQIMPO_CONVERT_VALUE_def MQIMPO_INQ_NEXT_def MQIMPO_INQ_FIRST_def)

text \<open>
  What the loop of the wildcard inquiry answers when it starts at the entry
  \<open>i\<close> and the queue manager refuses no inquiry.
\<close>

definition loopAnswer :: "string \<Rightarrow> string list \<Rightarrow> string list \<Rightarrow> bool \<times> string list \<times> JMSException option" where
  "loopAnswer name propNames rest =
     (if name = '''' then (False, propNames @ rest, None)
      else if name \<in> set rest then (True, [], None)
      else (False, propNames, None))"

lemma getPropertiesLoop_answer:
  assumes "failing h MQINQMP ''%'' = None"
    and "i = (if options AND MQIMPO_INQ_NEXT = 0 then 0 else cursor h)"
    and "k = length (entries h) - i"
  shows "\<exists>h'. getPropertiesLoop MQItoString name options h propNames
           = (loopAnswer name propNames (map fst (drop i (entries h))), h')
         \<and> entries h' = entries h \<and> failing h' = failing h \<and> hMsg h' = hMsg h"
  using assms
proof (induction k arbitrary: h i options propNames)
  case 0
  then have inq: "InqMP h options ''%'' = (Inl \<lparr> MQRC = MQRC_PROPERTY_NOT_AVAILABLE \<rparr>, h)"
    by (auto simp add: InqMP_def Let_def)
  from 0 have "drop i (entries h) = []" by simp
  then show ?case
    by (subst getPropertiesLoop.simps) (simp add: inq loopAnswer_def)
next
  case (Suc k)
  then have lt: "i < length (entries h)" by arith
  let ?h1 = "h\<lparr> cursor := Suc i \<rparr>"
  let ?next = "MQIMPO_CONVERT_VALUE OR MQIMPO_INQ_NEXT"
  obtain gotName v where e: "entries h ! i = (gotName, v)"
    by (cases "entries h ! i")
  have idx: "(if options AND MQIMPO_INQ_NEXT = 0 then 0 else cursor h) = i"
    using Suc.prems by simp
  have inq: "InqMP h options ''%'' = (Inr (gotName, v), ?h1)"
    unfolding InqMP_def Let_def idx using Suc.prems(1) lt e by simp
  have dr: "map fst (drop i (entries h)) = gotName # map fst (drop (Suc i) (entries h))"
    using lt e by (simp add: Cons_nth_drop_Suc [symmetric])
  have ih: "\<exists>h'. getPropertiesLoop MQItoString name ?next ?h1 acc
           = (loopAnswer name acc (map fst (drop (Suc i) (entries ?h1))), h')
         \<and> entries h' = entries ?h1 \<and> failing h' = failing ?h1 \<and> hMsg h' = hMsg ?h1" for acc
    by (rule Suc.IH) (use Suc.prems lt in \<open>auto simp add: MQIMPO_INQ_NEXT_def\<close>)
  show ?case
  proof (cases "name = ''''")
    case True
    from ih [of "propNames @ [gotName]"] True show ?thesis
      by (subst getPropertiesLoop.simps) (auto simp add: inq dr loopAnswer_def)
  next
    case False
    show ?thesis
    proof (cases "gotName = name")
      case True
      with False show ?thesis
        by (subst getPropertiesLoop.simps) (simp add: inq dr loopAnswer_def)
    next
      case neq: False
      from ih [of propNames] False neq show ?thesis
        by (subst getPropertiesLoop.simps) (auto simp add: inq dr loopAnswer_def)
    qed
  qed
qed

lemma getPropertiesInternal_answer:
  assumes "failing (msgHandle msg) MQINQMP ''%'' = None"
  shows "\<exists>msg'. getPropertiesInternal MQItoString name msg
           = (loopAnswer name [] (propertyNames (msgHandle msg)), msg')
         \<and> entries (msgHandle msg') = entries (msgHandle msg)
         \<and> failing (msgHandle msg') = failing (msgHandle msg)
         \<and> hMsg (msgHandle msg') = hMsg (msgHandle msg)
         \<and> mqmd msg' = mqmd msg"
proof -
  obtain h' where h':
    "getPropertiesLoop MQItoString name (MQIMPO_CONVERT_VALUE OR MQIMPO_INQ_FIRST) (msgHandle msg) []
       = (loopAnswer name [] (map fst (drop 0 (entries (msgHandle msg)))), h')"
    "entries h' = entries (msgHandle msg)" "failing h' = failing (msgHandle msg)"
    "hMsg h' = hMsg (msgHandle msg)"
    using getPropertiesLoop_answer [OF assms, of 0 "MQIMPO_CONVERT_VALUE OR MQIMPO_INQ_FIRST"
        "length (entries (msgHandle msg))" MQItoString name "[]"]
    by (auto simp add: inquiry_options_next)
  then show ?thesis
    by (simp add: getPropertiesInternal_def propertyNames_def)
qed

lemma PropertyExists_answer:
  assumes "failing (msgHandle msg) MQINQMP ''%'' = None"
    and "'''' \<notin> set (propertyNames (msgHandle msg))"
  shows "fst (PropertyExists MQItoString name msg)
           = (name \<in> set (propertyNames (msgHandle msg)), None)"
proof -
  obtain msg' where "getPropertiesInternal MQItoString name msg
           = (loopAnswer name [] (propertyNames (msgHandle msg)), msg')"
    using getPropertiesInternal_answer [OF assms(1)] by blast
  with assms(2) show ?thesis
    by (auto simp add: PropertyExists_def loopAnswer_def)
qed

lemma GetPropertyNames_answer:
  assumes "failing (msgHandle msg) MQINQMP ''%'' = None"
  shows "\<exists>msg'. GetPropertyNames MQItoString msg = ((propertyNames (msgHandle msg), None), msg')
         \<and> entries (msgHandle msg') = entries (msgHandle msg)
         \<and> failing (msgHandle msg') = failing (msgHandle msg)"
proof -
  obtain msg' where "getPropertiesInternal MQItoString '''' msg
           = (loopAnswer '''' [] (propertyNames (msgHandle msg)), msg')"
     "entries (msgHandle msg') = entries (msgHandle msg)"
     "failing (msgHandle msg') = failing (msgHandle msg)"
    using getPropertiesInternal_answer [OF assms] by blast
  then show ?thesis
    by (simp add: GetPropertyNames_def loopAnswer_def)
qed

lemma map_fst_upsert:
  "map fst (upsert name v es)
     = (if name \<in> set (map fst es) then map fst es else map fst es @ [name])"
  by (induction es) (auto simp add: rev_image_eqI)

lemma map_of_upsert: "map_of (upsert name v es) name = Some v"
  by (induction es) auto

lemma map_of_absent:
  assumes "name \<notin> set (map fst es)"
  shows "map_of es name = None"
  using assms by (induction es) auto

lemma setTypedProperty_result:
  assumes "failing (msgHandle msg) MQSETMP p = None" and "p \<noteq> ''''"
  shows "setTypedProperty p v msg
     = (None, msg\<lparr> msgHandle := (msgHandle msg)\<lparr> entries := upsert p v (entries (msgHandle msg)) \<rparr> \<rparr>)"
  using assms by (simp add: setTypedProperty_def SetMP_def)

lemma SetStringProperty_result:
  assumes "failing (msgHandle msg) MQSETMP p = None" and "p \<noteq> ''''"
  shows "SetStringProperty MQItoString p (Some s) msg
     = (None, msg\<lparr> msgHandle := (msgHandle msg)\<lparr> entries := upsert p (PString s) (entries (msgHandle msg)) \<rparr> \<rparr>)"
  using assms by (simp add: SetStringProperty_def SetMP_def)

lemma PropertyExists_after_upsert:
  assumes "\<forall>verb n. failing (msgHandle msg) verb n = None"
    and "'''' \<notin> set (propertyNames (msgHandle msg))" and "p \<noteq> ''''"
  shows "fst (PropertyExists MQItoString p
      (msg\<lparr> msgHandle := (msgHandle msg)\<lparr> entries := upsert p v (entries (msgHandle msg)) \<rparr> \<rparr>))
     = (True, None)"
proof -
  let ?msg = "msg\<lparr> msgHandle := (msgHandle msg)\<lparr> entries := upsert p v (entries (msgHandle msg)) \<rparr> \<rparr>"
  have a: "failing (msgHandle ?msg) MQINQMP ''%'' = None"
    using assms(1) by simp
  have b: "'''' \<notin> set (propertyNames (msgHandle ?msg))"
    using assms(2,3) by (auto simp add: propertyNames_def map_fst_upsert)
  have c: "p \<in> set (propertyNames (msgHandle ?msg))"
    by (auto simp add: propertyNames_def map_fst_upsert)
  show ?thesis
    using PropertyExists_answer [OF a b, of MQItoString p] c by simp
qed

lemma inquireProperty_present:
  assumes "failing (msgHandle msg) MQINQMP p = None" and "p \<noteq> ''''" and "p \<noteq> ''%''"
    and "map_of (entries (msgHandle msg)) p = Some v"
  shows "inquireProperty p msg = Inr (Some v)"
  using assms by (simp add: inquireProperty_def InqMP_def)

lemma inquireProperty_absent:
  assumes "failing (msgHandle msg) MQINQMP p = None" and "p \<noteq> ''''" and "p \<noteq> ''%''"
    and "p \<notin> set (propertyNames (msgHandle msg))"
  shows "inquireProperty p msg = Inr None"
  using assms
  by (simp add: inquireProperty_def InqMP_def propertyNames_def map_of_absent)

section \<open>Claims about the properties of a message\<close>

text \<open>
  Claim C7. On a message whose handle the queue manager does not refuse and
  that holds no property of the empty name, \<open>PropertyExists\<close> answers \<open>true\<close>
  for the names that are set and \<open>false\<close> for all others, with no error. Once
  a property has been set it exists whatever its value: a typed value of any
  kind, the integer 0 (which \<open>GetIntProperty\<close> then returns with no error, as
  it does any integer that was set), or the empty text set by
  \<open>SetStringProperty\<close>. For a name that is not set, the getters return \<open>nil\<close>,
  0, 0 and \<open>false\<close>, and no error.
\<close>

theorem property_exists_whatever_the_value:
  assumes "\<forall>verb n. failing (msgHandle msg) verb n = None"
    and "'''' \<notin> set (propertyNames (msgHandle msg))"
  shows "fst (PropertyExists MQItoString name msg)
           = (name \<in> set (propertyNames (msgHandle msg)), None)
   \<and> (p \<noteq> '''' \<longrightarrow>
        fst (setTypedProperty p v msg) = None
      \<and> fst (PropertyExists MQItoString p (snd (setTypedProperty p v msg))) = (True, None)
      \<and> fst (SetStringProperty MQItoString p (Some '''') msg) = None
      \<and> fst (PropertyExists MQItoString p (snd (SetStringProperty MQItoString p (Some '''') msg)))
          = (True, None))
   \<and> (p \<noteq> '''' \<and> p \<noteq> ''%'' \<longrightarrow>
        fst (SetIntProperty p i msg) = None
      \<and> fst (PropertyExists MQItoString p (snd (SetIntProperty p i msg))) = (True, None)
      \<and> GetIntProperty ParseInt p (snd (SetIntProperty p i msg)) = (i, None)
      \<and> fst (PropertyExists MQItoString p (snd (SetIntProperty p 0 msg))) = (True, None)
      \<and> GetIntProperty ParseInt p (snd (SetIntProperty p 0 msg)) = (0, None))
   \<and> (name \<notin> set (propertyNames (msgHandle msg)) \<and> name \<noteq> '''' \<and> name \<noteq> ''%'' \<longrightarrow>
        GetStringProperty name msg = None
      \<and> GetIntProperty ParseInt name msg = (0, None)
      \<and> GetDoubleProperty ParseFloat name msg = (0, None)
      \<and> GetBooleanProperty name msg = (False, None))"
proof (intro conjI impI)
  show "fst (PropertyExists MQItoString name msg)
           = (name \<in> set (propertyNames (msgHandle msg)), None)"
    using assms by (simp add: PropertyExists_answer)
next
  assume p: "p \<noteq> ''''"
  show "fst (setTypedProperty p v msg) = None"
    using assms(1) p by (simp add: setTypedProperty_result)
  show "fst (PropertyExists MQItoString p (snd (setTypedProperty p v msg))) = (True, None)"
    using assms p by (simp add: setTypedProperty_result PropertyExists_after_upsert)
  show "fst (SetStringProperty MQItoString p (Some '''') msg) = None"
    using assms(1) p by (simp add: SetStringProperty_result)
  show "fst (PropertyExists MQItoString p (snd (SetStringProperty MQItoString p (Some '''') msg)))
          = (True, None)"
    using assms p by (simp add: SetStringProperty_result PropertyExists_after_upsert)
next
  assume p: "p \<noteq> '''' \<and> p \<noteq> ''%''"
  have get: "GetIntProperty ParseInt p (snd (SetIntProperty p j msg)) = (j, None)" for j
  proof -
    have "inquireProperty p (snd (SetIntProperty p j msg)) = Inr (Some (PInt j))"
      using assms(1) p
      by (intro inquireProperty_present)
        (simp_all add: SetIntProperty_def setTypedProperty_result map_of_upsert)
    then show ?thesis by (simp add: GetIntProperty_def)
  qed
  show "fst (SetIntProperty p i msg) = None"
    using assms(1) p by (simp add: SetIntProperty_def setTypedProperty_result)
  show "fst (PropertyExists MQItoString p (snd (SetIntProperty p i msg))) = (True, None)"
    using assms p
    by (simp add: SetIntProperty_def setTypedProperty_result PropertyExists_after_upsert)
  show "GetIntProperty ParseInt p (snd (SetIntProperty p i msg)) = (i, None)"
    by (rule get)
  show "fst (PropertyExists MQItoString p (snd (SetIntProperty p 0 msg))) = (True, None)"
    using assms p
    by (simp add: SetIntProperty_def setTypedProperty_result PropertyExists_after_upsert)
  show "GetIntProperty ParseInt p (snd (SetIntProperty p 0 msg)) = (0, None)"
    by (rule get)
next
  assume n: "name \<notin> set (propertyNames (msgHandle msg)) \<and> name \<noteq> '''' \<and> name \<noteq> ''%''"
  then have inq: "inquireProperty name msg = Inr None"
    using assms(1) by (simp add: inquireProperty_absent)
  show "GetStringProperty name msg = None"
    using n assms(1)
    by (simp add: GetStringProperty_def InqMP_def propertyNames_def map_of_absent)
  show "GetIntProperty ParseInt name msg = (0, None)"
    by (simp add: GetIntProperty_def inq)
  show "GetDoubleProperty ParseFloat name msg = (0, None)"
    by (simp add: GetDoubleProperty_def inq)
  show "GetBooleanProperty name msg = (False, None)"
    by (simp add: GetBooleanProperty_def inq)
qed

theorem property_exists_whatever_the_value_witness:
  "(\<forall>verb n. failing (msgHandle blankMessage) verb n = None)
   \<and> '''' \<notin> set (propertyNames (msgHandle blankMessage))
   \<and> fst (PropertyExists reasonNames ''p'' blankMessage) = (False, None)
   \<and> fst (SetIntProperty ''p'' 0 blankMessage) = None
   \<and> entries (msgHandle (snd (SetIntProperty ''p'' 0 blankMessage))) = [(''p'', PInt 0)]
   \<and> fst (PropertyExists reasonNames ''p'' (snd (SetIntProperty ''p'' 0 blankMessage)))
       = (True, None)
   \<and> GetIntProperty (\<lambda>s. None) ''p'' (snd (SetIntProperty ''p'' 0 blankMessage)) = (0, None)
   \<and> GetStringProperty ''p'' blankMessage = None
   \<and> GetIntProperty (\<lambda>s. None) ''p'' blankMessage = (0, None)
   \<and> GetDoubleProperty (\<lambda>s. None) ''p'' blankMessage = (0, None)
   \<and> GetBooleanProperty ''p'' blankMessage = (False, None)"
proof -
  have a: "\<forall>verb n. failing (msgHandle blankMessage) verb n = None"
    by (simp add: blankMessage_def)
  have b: "'''' \<notin> set (propertyNames (msgHandle blankMessage))"
    by (simp add: blankMessage_def propertyNames_def)
  have c: "''p'' \<notin> set (propertyNames (msgHandle blankMessage))"
    by (simp add: blankMessage_def propertyNames_def)
  have d: "entries (msgHandle (snd (SetIntProperty ''p'' 0 blankMessage))) = [(''p'', PInt 0)]"
    by (simp add: SetIntProperty_def setTypedProperty_def SetMP_def blankMessage_def)
  note t = property_exists_whatever_the_value [OF a b, where name = "''p''" and p = "''p''"
      and i = 0 and MQItoString = reasonNames and ParseInt = "\<lambda>s. None"
      and ParseFloat = "\<lambda>s. None"]
  from t c have e: "fst (PropertyExists reasonNames ''p'' blankMessage) = (False, None)"
    by simp
  from t have f: "fst (SetIntProperty ''p'' 0 blankMessage) = None
      \<and> fst (PropertyExists reasonNames ''p'' (snd (SetIntProperty ''p'' 0 blankMessage)))
          = (True, None)
      \<and> GetIntProperty (\<lambda>s. None) ''p'' (snd (SetIntProperty ''p'' 0 blankMessage)) = (0, None)"
    by simp
  from t c have g: "GetStringProperty ''p'' blankMessage = None
      \<and> GetIntProperty (\<lambda>s. None) ''p'' blankMessage = (0, None)
      \<and> GetDoubleProperty (\<lambda>s. None) ''p'' blankMessage = (0, None)
      \<and> GetBooleanProperty ''p'' blankMessage = (False, None)"
    by simp
  from a b d e f g show ?thesis by blast
qed

subsection \<open>Clearing the properties\<close>

lemma DltMP_first:
  assumes "entries g = (k, v) # es" and "k \<notin> set (map fst es)" and "k \<noteq> ''''"
    and "failing g MQDLTMP k = None"
  shows "DltMP g k = (None, g\<lparr> entries := es \<rparr>)"
proof -
  have "filter (\<lambda>e. fst e \<noteq> k) es = es"
    using assms(2) by (induction es) auto
  with assms show ?thesis
    by (simp add: DltMP_def propertyNames_def)
qed

lemma deleteEach_stops:
  assumes "entries g = before @ (n, v) # rest"
    and "distinct (map fst (entries g))" and "'''' \<notin> set (map fst (entries g))"
    and "\<forall>k \<in> set (map fst before). failing g MQDLTMP k = None"
    and "failing g MQDLTMP n = Some rc"
  shows "deleteEach MQItoString (map fst (entries g)) g
     = (Some (exceptionOfReturn MQItoString \<lparr> MQRC = rc \<rparr>), g\<lparr> entries := (n, v) # rest \<rparr>)"
  using assms
proof (induction before arbitrary: g)
  case Nil
  then have "g\<lparr> entries := (n, v) # rest \<rparr> = g" by simp
  with Nil show ?case
    by (simp add: DltMP_def)
next
  case (Cons e before)
  obtain k w where e: "e = (k, w)" by (cases e)
  let ?g = "g\<lparr> entries := before @ (n, v) # rest \<rparr>"
  have del: "DltMP g k = (None, ?g)"
    using Cons.prems e by (intro DltMP_first [where v = w]) auto
  have "deleteEach MQItoString (map fst (entries ?g)) ?g
     = (Some (exceptionOfReturn MQItoString \<lparr> MQRC = rc \<rparr>), ?g\<lparr> entries := (n, v) # rest \<rparr>)"
    using Cons.prems e by (intro Cons.IH) auto
  with Cons.prems e del show ?case by simp
qed

lemma deleteEach_all:
  assumes "entries g = es"
    and "distinct (map fst (entries g))" and "'''' \<notin> set (map fst (entries g))"
    and "\<forall>k \<in> set (map fst (entries g)). failing g MQDLTMP k = None"
  shows "deleteEach MQItoString (map fst (entries g)) g = (None, g\<lparr> entries := [] \<rparr>)"
  using assms
proof (induction es arbitrary: g)
  case Nil
  then have "g\<lparr> entries := [] \<rparr> = g" by simp
  with Nil show ?case by simp
next
  case (Cons e es)
  obtain k w where e: "e = (k, w)" by (cases e)
  let ?g = "g\<lparr> entries := es \<rparr>"
  have del: "DltMP g k = (None, ?g)"
    using Cons.prems e by (intro DltMP_first [where v = w]) auto
  have "deleteEach MQItoString (map fst (entries ?g)) ?g = (None, ?g\<lparr> entries := [] \<rparr>)"
    using Cons.prems e by (intro Cons.IH) auto
  with Cons.prems e del show ?case by simp
qed

text \<open>
  Claim C9. Let the queue manager not refuse the inquiry of the names, and let
  the names of the properties be distinct and not empty. When it refuses no
  deletion, \<open>ClearProperties\<close> returns no error and leaves no property. When
  the first deletion that it refuses is that of the property \<open>n\<close>,
  \<open>ClearProperties\<close> returns the exception made from that refusal, the
  properties before \<open>n\<close> are gone, and \<open>n\<close> and those after it are still there:
  nothing is put back.
\<close>

theorem clear_properties_stops_at_first_failure:
  assumes "failing (msgHandle msg) MQINQMP ''%'' = None"
    and "distinct (propertyNames (msgHandle msg))"
    and "'''' \<notin> set (propertyNames (msgHandle msg))"
  shows "((\<forall>k \<in> set (propertyNames (msgHandle msg)). failing (msgHandle msg) MQDLTMP k = None)
        \<longrightarrow> (\<exists>msg'. ClearProperties MQItoString msg = (None, msg')
               \<and> entries (msgHandle msg') = []))
   \<and> (entries (msgHandle msg) = before @ (n, v) # rest
        \<and> (\<forall>k \<in> set (map fst before). failing (msgHandle msg) MQDLTMP k = None)
        \<and> failing (msgHandle msg) MQDLTMP n = Some rc
        \<longrightarrow> (\<exists>msg'. ClearProperties MQItoString msg
                        = (Some (exceptionOfReturn MQItoString \<lparr> MQRC = rc \<rparr>), msg')
               \<and> entries (msgHandle msg') = (n, v) # rest))"
proof -
  obtain msg1 where names:
    "GetPropertyNames MQItoString msg = ((propertyNames (msgHandle msg), None), msg1)"
    "entries (msgHandle msg1) = entries (msgHandle msg)"
    "failing (msgHandle msg1) = failing (msgHandle msg)"
    using GetPropertyNames_answer [OF assms(1)] by blast
  have pn: "propertyNames (msgHandle msg) = map fst (entries (msgHandle msg1))"
    using names(2) by (simp add: propertyNames_def)
  have d: "distinct (map fst (entries (msgHandle msg1)))"
    and e: "'''' \<notin> set (map fst (entries (msgHandle msg1)))"
    using assms(2,3) pn by simp_all
  show ?thesis
  proof (intro conjI impI)
    assume "\<forall>k \<in> set (propertyNames (msgHandle msg)). failing (msgHandle msg) MQDLTMP k = None"
    then have "\<forall>k \<in> set (map fst (entries (msgHandle msg1))).
        failing (msgHandle msg1) MQDLTMP k = None"
      using pn names(3) by simp
    then have "deleteEach MQItoString (map fst (entries (msgHandle msg1))) (msgHandle msg1)
        = (None, (msgHandle msg1)\<lparr> entries := [] \<rparr>)"
      using d e by (intro deleteEach_all) simp_all
    then show "\<exists>msg'. ClearProperties MQItoString msg = (None, msg')
               \<and> entries (msgHandle msg') = []"
      by (simp add: ClearProperties_def names(1) pn)
  next
    assume a: "entries (msgHandle msg) = before @ (n, v) # rest
        \<and> (\<forall>k \<in> set (map fst before). failing (msgHandle msg) MQDLTMP k = None)
        \<and> failing (msgHandle msg) MQDLTMP n = Some rc"
    then have "deleteEach MQItoString (map fst (entries (msgHandle msg1))) (msgHandle msg1)
        = (Some (exceptionOfReturn MQItoString \<lparr> MQRC = rc \<rparr>),
           (msgHandle msg1)\<lparr> entries := (n, v) # rest \<rparr>)"
      using d e names(2,3) by (intro deleteEach_stops [where before = before]) simp_all
    then show "\<exists>msg'. ClearProperties MQItoString msg
                        = (Some (exceptionOfReturn MQItoString \<lparr> MQRC = rc \<rparr>), msg')
               \<and> entries (msgHandle msg') = (n, v) # rest"
      by (simp add: ClearProperties_def names(1) pn)
  qed
qed

theorem clear_properties_stops_at_first_failure_witness:
  "failing (msgHandle (receivedWith [(''a'', PString ''x''), (''b'', PInt 0)])) MQINQMP ''%'' = None
   \<and> distinct (propertyNames (msgHandle (receivedWith [(''a'', PString ''x''), (''b'', PInt 0)])))
   \<and> fst (ClearProperties reasonNames (receivedWith [(''a'', PString ''x''), (''b'', PInt 0)]))
       = None
   \<and> entries (msgHandle (snd (ClearProperties reasonNames
         (receivedWith [(''a'', PString ''x''), (''b'', PInt 0)])))) = []
   \<and> failing (msgHandle (refusingDelete ''b'' 2460
         [(''a'', PString ''x''), (''b'', PInt 0), (''c'', PBool False)])) MQDLTMP ''b'' = Some 2460
   \<and> fst (ClearProperties reasonNames (refusingDelete ''b'' 2460
         [(''a'', PString ''x''), (''b'', PInt 0), (''c'', PBool False)]))
       = Some \<lparr> reason = ''MQRC_HMSG_ERROR'', errorCode = ''2460'',
                 linkedError = Some (MQError \<lparr> MQRC = 2460 \<rparr>) \<rparr>
   \<and> entries (msgHandle (snd (ClearProperties reasonNames (refusingDelete ''b'' 2460
         [(''a'', PString ''x''), (''b'', PInt 0), (''c'', PBool False)]))))
       = [(''b'', PInt 0), (''c'', PBool False)]"
proof -
  let ?m1 = "receivedWith [(''a'', PString ''x''), (''b'', PInt 0)]"
  let ?m2 = "refusingDelete ''b'' 2460 [(''a'', PString ''x''), (''b'', PInt 0), (''c'', PBool False)]"
  have a1: "failing (msgHandle ?m1) MQINQMP ''%'' = None"
    by (simp add: receivedWith_def)
  have b1: "distinct (propertyNames (msgHandle ?m1))"
    by (simp add: receivedWith_def propertyNames_def)
  have c1: "'''' \<notin> set (propertyNames (msgHandle ?m1))"
    by (simp add: receivedWith_def propertyNames_def)
  have d1: "\<forall>k \<in> set (propertyNames (msgHandle ?m1)). failing (msgHandle ?m1) MQDLTMP k = None"
    by (simp add: receivedWith_def)
  obtain msg1 where r1: "ClearProperties reasonNames ?m1 = (None, msg1)"
      "entries (msgHandle msg1) = []"
    using clear_properties_stops_at_first_failure [OF a1 b1 c1, of reasonNames] d1 by blast
  have a2: "failing (msgHandle ?m2) MQINQMP ''%'' = None"
    by (simp add: refusingDelete_def)
  have b2: "distinct (propertyNames (msgHandle ?m2))"
    by (simp add: refusingDelete_def propertyNames_def)
  have c2: "'''' \<notin> set (propertyNames (msgHandle ?m2))"
    by (simp add: refusingDelete_def propertyNames_def)
  have d2: "entries (msgHandle ?m2) = [(''a'', PString ''x'')] @ (''b'', PInt 0) # [(''c'', PBool False)]
      \<and> (\<forall>k \<in> set (map fst [(''a'', PString ''x'')]). failing (msgHandle ?m2) MQDLTMP k = None)
      \<and> failing (msgHandle ?m2) MQDLTMP ''b'' = Some 2460"
    by (simp add: refusingDelete_def)
  obtain msg2 where r2: "ClearProperties reasonNames ?m2
        = (Some (exceptionOfReturn reasonNames \<lparr> MQRC = 2460 \<rparr>), msg2)"
      "entries (msgHandle msg2) = (''b'', PInt 0) # [(''c'', PBool False)]"
    using clear_properties_stops_at_first_failure [OF a2 b2 c2, of reasonNames
        "[(''a'', PString ''x'')]" "''b''" "PInt 0" "[(''c'', PBool False)]" 2460] d2
    by blast
  have e2: "exceptionOfReturn reasonNames \<lparr> MQRC = 2460 \<rparr>
      = \<lparr> reason = ''MQRC_HMSG_ERROR'', errorCode = ''2460'',
          linkedError = Some (MQError \<lparr> MQRC = 2460 \<rparr>) \<rparr>"
    by (simp add: exceptionOfReturn_def CreateJMSException_def strconv_Itoa_def reasonNames_def)
  from a1 b1 r1 d2 r2 e2 show ?thesis by simp
qed

section \<open>Claims about the typed getters\<close>






section \<open>Claims about the asynchronous send\<close>

lemma sendAll_append:
  "sendAll (xs @ ys) w =
     (case sendAll xs w of (r1, w1) \<Rightarrow> (case sendAll ys w1 of (r2, w2) \<Rightarrow> (r1 @ r2, w2)))"
  by (induction xs arbitrary: w) (simp_all split: prod.splits)

lemma sendAll_without_check:
  assumes "sendsSinceLastCheck w + length xs < sendCheckCount w"
  shows "sendAll xs w =
     (replicate (length xs) None,
      w\<lparr> sendsSinceLastCheck := sendsSinceLastCheck w + length xs,
         accumulatedFailures := accumulatedFailures w + failuresIn xs,
         accumulatedWarnings := accumulatedWarnings w + warningsIn xs,
         latestReason := latestReasonIn xs (latestReason w) \<rparr>)"
  using assms
proof (induction xs arbitrary: w)
  case Nil
  then show ?case by simp
next
  case (Cons x xs)
  let ?w1 = "(transportPut x w)\<lparr> sendsSinceLastCheck := sendsSinceLastCheck w + 1 \<rparr>"
  have cnt: "sendsSinceLastCheck (transportPut x w) = sendsSinceLastCheck w"
    "sendCheckCount (transportPut x w) = sendCheckCount w"
    by (cases x; simp)+
  from Cons.prems have step: "asyncSend x w = (None, ?w1)"
    by (simp add: asyncSend_def Let_def cnt)
  have "sendsSinceLastCheck ?w1 + length xs < sendCheckCount ?w1"
    using Cons.prems by (simp add: cnt)
  then have "sendAll xs ?w1 =
     (replicate (length xs) None,
      ?w1\<lparr> sendsSinceLastCheck := sendsSinceLastCheck ?w1 + length xs,
         accumulatedFailures := accumulatedFailures ?w1 + failuresIn xs,
         accumulatedWarnings := accumulatedWarnings ?w1 + warningsIn xs,
         latestReason := latestReasonIn xs (latestReason ?w1) \<rparr>)"
    by (rule Cons.IH)
  with step show ?case
    by (cases x) simp_all
qed

lemma failuresIn_append: "failuresIn (xs @ ys) = failuresIn xs + failuresIn ys"
  by (induction xs rule: failuresIn.induct) simp_all

lemma warningsIn_append: "warningsIn (xs @ ys) = warningsIn xs + warningsIn ys"
  by (induction xs rule: warningsIn.induct) simp_all

lemma latestReasonIn_append:
  "latestReasonIn (xs @ ys) r = latestReasonIn ys (latestReasonIn xs r)"
  by (induction xs r rule: latestReasonIn.induct) simp_all

lemma sendAll_block:
  assumes "0 < n" and "length xs = n"
  shows "sendAll xs (newWindow n) = (replicate (n - 1) None @ [blockReport xs], newWindow n)"
proof -
  from assms have ne: "xs \<noteq> []" by auto
  define ys where "ys = butlast xs"
  define y where "y = last xs"
  have xs: "xs = ys @ [y]" and len: "length ys = n - 1"
    using ne assms by (simp_all add: ys_def y_def)
  let ?w = "newWindow n"
  let ?w1 = "?w\<lparr> sendsSinceLastCheck := sendsSinceLastCheck ?w + length ys,
         accumulatedFailures := accumulatedFailures ?w + failuresIn ys,
         accumulatedWarnings := accumulatedWarnings ?w + warningsIn ys,
         latestReason := latestReasonIn ys (latestReason ?w) \<rparr>"
  have "sendsSinceLastCheck ?w + length ys < sendCheckCount ?w"
    using assms len by (simp add: newWindow_def)
  then have first: "sendAll ys ?w = (replicate (length ys) None, ?w1)"
    by (rule sendAll_without_check)
  have final: "asyncSend y ?w1 = (blockReport xs, newWindow n)"
    using assms len
    by (cases y)
      (simp_all add: asyncSend_def reconcile_def Let_def newWindow_def blockReport_def xs
        failuresIn_append warningsIn_append latestReasonIn_append)
  show ?thesis
    unfolding xs sendAll_append first
    using final len by (simp add: xs)
qed

text \<open>
  Claim C6. From a new window with a positive \<open>sendCheckCount\<close> of \<open>n\<close>, the
  first \<open>n - 1\<close> sends report nothing, whatever the transport did with them;
  the \<open>n\<close>th reports the failures and the warnings of these \<open>n\<close> sends, with
  the latest reason as the cause, or nothing when there were none; and it
  leaves the window as new, so that the next \<open>n\<close> sends are counted from zero.
  With \<open>sendCheckCount = 10\<close>, of 50 sends of which the transport fails the
  25th and all later ones with a full queue, the first 29 report nothing; the
  30th reports 6 failures, 0 warnings and the full queue as the cause; the
  31st to the 39th report nothing; the 40th reports 10 failures; the 41st to
  the 49th report nothing and the 50th reports 10 failures again. The sends
  are counted from 1 here; the test \<open>TestAsyncPutCheckCountWithFailure\<close> counts
  its sends from 0 and expects the two reports at its counts 30 and 40.
\<close>

theorem async_failures_are_reported_at_every_tenth_send:
  "(0 < n \<and> length xs = n \<longrightarrow>
      sendAll xs (newWindow n) = (replicate (n - 1) None @ [blockReport xs], newWindow n))
   \<and> length queueFullFrom25 = 50
   \<and> fst (sendAll queueFullFrom25 (newWindow 10))
       = replicate 29 None
         @ [Some \<lparr> failures = 6, warnings = 0, cause = Some MQRC_Q_FULL \<rparr>]
         @ replicate 9 None
         @ [Some \<lparr> failures = 10, warnings = 0, cause = Some MQRC_Q_FULL \<rparr>]
         @ replicate 9 None
         @ [Some \<lparr> failures = 10, warnings = 0, cause = Some MQRC_Q_FULL \<rparr>]
   \<and> snd (sendAll (take 30 queueFullFrom25) (newWindow 10)) = newWindow 10"
proof (intro conjI impI)
  assume "0 < n \<and> length xs = n"
  then show "sendAll xs (newWindow n) = (replicate (n - 1) None @ [blockReport xs], newWindow n)"
    by (simp add: sendAll_block)
next
  show "length queueFullFrom25 = 50"
    by (simp add: queueFullFrom25_def)
next
  show "fst (sendAll queueFullFrom25 (newWindow 10))
       = replicate 29 None
         @ [Some \<lparr> failures = 6, warnings = 0, cause = Some MQRC_Q_FULL \<rparr>]
         @ replicate 9 None
         @ [Some \<lparr> failures = 10, warnings = 0, cause = Some MQRC_Q_FULL \<rparr>]
         @ replicate 9 None
         @ [Some \<lparr> failures = 10, warnings = 0, cause = Some MQRC_Q_FULL \<rparr>]"
    by code_simp
next
  show "snd (sendAll (take 30 queueFullFrom25) (newWindow 10)) = newWindow 10"
    by code_simp
qed

theorem async_failures_are_reported_at_every_tenth_send_witness:
  "length [PutAccepted, PutWarning 2053, PutFailure 2053] = 3
   \<and> sendAll [PutAccepted, PutWarning 2053, PutFailure 2053] (newWindow 3)
       = ([None, None, Some \<lparr> failures = 1, warnings = 1, cause = Some 2053 \<rparr>], newWindow 3)"
proof -
  have a: "0 < (3::nat) \<and> length [PutAccepted, PutWarning 2053, PutFailure 2053] = 3"
    by simp
  have b: "blockReport [PutAccepted, PutWarning 2053, PutFailure 2053]
      = Some \<lparr> failures = 1, warnings = 1, cause = Some 2053 \<rparr>"
    by (simp add: blockReport_def)
  have "sendAll [PutAccepted, PutWarning 2053, PutFailure 2053] (newWindow 3)
      = (replicate (3 - 1) None @ [blockReport [PutAccepted, PutWarning 2053, PutFailure 2053]],
         newWindow 3)"
    using async_failures_are_reported_at_every_tenth_send
      [where n = 3 and xs = "[PutAccepted, PutWarning 2053, PutFailure 2053]"] a
    by blast
  then show ?thesis
    unfolding b by (simp add: numeral_3_eq_3)
qed


end
